theory Spec2Isabelle
  imports Complex_Main
begin

section \<open>Python values\<close>

text \<open>
  The pipeline works on JSON-like dictionaries (\<open>Dict[str, Any]\<close>).  A dictionary is an
  association list with distinct string keys, in insertion order, read with \<open>map_of\<close>;
  the values are the Python values a record can hold.  A float is an exact rational or one of the three special
  values; a datetime is its naive wall-clock reading in microseconds.
\<close>

datatype pyfloat = Fin rat | PosInf | NegInf | NaN

datatype pyval =
    PNone
  | PBool bool
  | PInt int
  | PFloat pyfloat
  | PStr string
  | PDatetime int
  | PList "pyval list"
  | PDict "(string \<times> pyval) list"

type_synonym pydict = "(string \<times> pyval) list"

datatype exn =
    AttributeError string
  | TypeError string
  | ValueError string
  | OverflowError string
  | ZeroDivisionError string
  | OtherError string

fun exn_str :: "exn \<Rightarrow> string" where
  "exn_str (AttributeError m) = m"
| "exn_str (TypeError m) = m"
| "exn_str (ValueError m) = m"
| "exn_str (OverflowError m) = m"
| "exn_str (ZeroDivisionError m) = m"
| "exn_str (OtherError m) = m"

text \<open>\<open>key in d\<close>, \<open>d[key]\<close> for a key known to be there, and \<open>d.get(key, default)\<close>.\<close>

definition has_key :: "pydict \<Rightarrow> string \<Rightarrow> bool" where
  "has_key d k = (map_of d k \<noteq> None)"

definition dict_get :: "pydict \<Rightarrow> string \<Rightarrow> pyval \<Rightarrow> pyval" where
  "dict_get d k dflt = (case map_of d k of None \<Rightarrow> dflt | Some v \<Rightarrow> v)"

text \<open>\<open>x or default\<close> for an optional string.\<close>

definition str_or :: "string option \<Rightarrow> string \<Rightarrow> string" where
  "str_or x dflt = (case x of None \<Rightarrow> dflt | Some s \<Rightarrow> (if s \<noteq> [] then s else dflt))"

text \<open>Truth value of an object in a condition.\<close>

fun py_truthy :: "pyval \<Rightarrow> bool" where
  "py_truthy PNone = False"
| "py_truthy (PBool b) = b"
| "py_truthy (PInt i) = (i \<noteq> 0)"
| "py_truthy (PFloat (Fin r)) = (r \<noteq> 0)"
| "py_truthy (PFloat _) = True"
| "py_truthy (PStr s) = (s \<noteq> [])"
| "py_truthy (PDatetime _) = True"
| "py_truthy (PList xs) = (xs \<noteq> [])"
| "py_truthy (PDict d) = (d \<noteq> [])"

fun type_name :: "pyval \<Rightarrow> string" where
  "type_name PNone = ''NoneType''"
| "type_name (PBool _) = ''bool''"
| "type_name (PInt _) = ''int''"
| "type_name (PFloat _) = ''float''"
| "type_name (PStr _) = ''str''"
| "type_name (PDatetime _) = ''datetime.datetime''"
| "type_name (PList _) = ''list''"
| "type_name (PDict _) = ''dict''"

definition quoted :: "string \<Rightarrow> string" where
  "quoted s = CHR 0x27 # s @ [CHR 0x27]"

definition no_attribute :: "pyval \<Rightarrow> string \<Rightarrow> exn" where
  "no_attribute v attr =
     AttributeError (quoted (type_name v) @ '' object has no attribute '' @ quoted attr)"

subsection \<open>Strings\<close>

text \<open>
  \<open>str.replace\<close> of a one-character pattern, \<open>str.join\<close>, and the \<open>repr\<close> of a
  string, of a list of strings and of a details dictionary as an f-string prints them.  The \<open>repr\<close> covers the quote
  selection and the escaping of quotes and backslashes; control characters do not occur
  in the messages built here.
\<close>

definition str_replace :: "char \<Rightarrow> string \<Rightarrow> string \<Rightarrow> string" where
  "str_replace old new s = concat (map (\<lambda>c. if c = old then new else [c]) s)"

fun str_join :: "string \<Rightarrow> string list \<Rightarrow> string" where
  "str_join sep [] = []"
| "str_join sep [x] = x"
| "str_join sep (x # y # ys) = x @ sep @ str_join sep (y # ys)"

definition escape_with :: "char \<Rightarrow> string \<Rightarrow> string" where
  "escape_with qc s =
     concat (map (\<lambda>c. if c = CHR 0x5C \<or> c = qc then [CHR 0x5C, c] else [c]) s)"

definition repr_str :: "string \<Rightarrow> string" where
  "repr_str s =
     (if CHR 0x27 \<in> set s \<and> CHR 0x22 \<notin> set s
      then CHR 0x22 # escape_with (CHR 0x22) s @ [CHR 0x22]
      else CHR 0x27 # escape_with (CHR 0x27) s @ [CHR 0x27])"

definition repr_str_list :: "string list \<Rightarrow> string" where
  "repr_str_list xs = ''['' @ str_join '', '' (map repr_str xs) @ '']''"

type_synonym details = "(string \<times> string list) list"

definition repr_details :: "details \<Rightarrow> string" where
  "repr_details d =
     ''{'' @ str_join '', '' (map (\<lambda>(k, vs). repr_str k @ '': '' @ repr_str_list vs) d) @ ''}''"

text \<open>\<open>str(n)\<close> for an integer.\<close>

definition digit_char :: "nat \<Rightarrow> char" where
  "digit_char d = char_of (48 + d)"

function nat_str :: "nat \<Rightarrow> string" where
  "nat_str n = (if n < 10 then [digit_char n] else nat_str (n div 10) @ [digit_char (n mod 10)])"
  by pat_completeness auto
termination
  by (relation "measure (\<lambda>n. n)") auto

declare nat_str.simps [simp del]

definition int_str :: "int \<Rightarrow> string" where
  "int_str i = (if i < 0 then CHR 0x2D # nat_str (nat (- i)) else nat_str (nat i))"

section \<open>Library functions taken as parameters\<close>

text \<open>
  The float formatting and rounding of the Python runtime and the ISO 8601 parser are
  not part of the repository.  They are the fields of one record that every function
  using them receives: \<open>round2\<close> is \<open>round(x, 2)\<close>, \<open>fmt_pct n\<close> is the format
  \<open>:.n%\<close>, \<open>fmt_f1\<close> is \<open>:.1f\<close> applied to an age in hours (given in microseconds),
  \<open>fromisoformat\<close> is \<open>datetime.fromisoformat\<close> followed by \<open>replace(tzinfo=None)\<close>
  (it raises \<open>ValueError\<close> on a string that is not a date-time), \<open>isoformat\<close> prints
  a datetime, \<open>strftime\<close> is what formatting a datetime with a format text gives, and
  \<open>lower\<close> is \<open>str.lower\<close>, which follows the Unicode case mapping.
\<close>

record pylib =
  round2 :: "rat \<Rightarrow> rat"
  fmt_pct :: "nat \<Rightarrow> pyfloat \<Rightarrow> string"
  fmt_f1 :: "int \<Rightarrow> string"
  fromisoformat :: "string \<Rightarrow> exn + int"
  isoformat :: "int \<Rightarrow> string"
  strftime :: "int \<Rightarrow> string \<Rightarrow> exn + string"
  lower :: "string \<Rightarrow> string"

text \<open>
  Formatting a value with \<open>:.n%\<close>: numbers are converted to float (an integer too large
  for a float raises), a string raises \<open>ValueError\<close>, a datetime hands the text to
  \<open>strftime\<close>, and every other object raises \<open>TypeError\<close>.
\<close>

fun format_pct :: "pylib \<Rightarrow> nat \<Rightarrow> pyval \<Rightarrow> exn + string" where
  "format_pct lib n (PFloat f) = Inr (fmt_pct lib n f)"
| "format_pct lib n (PInt i) =
     (if \<bar>i\<bar> < 2 ^ 1024 - 2 ^ 970 then Inr (fmt_pct lib n (Fin (of_int i)))
      else Inl (OverflowError ''int too large to convert to float''))"
| "format_pct lib n (PBool b) = Inr (fmt_pct lib n (Fin (if b then 1 else 0)))"
| "format_pct lib n (PStr s) =
     Inl (ValueError (''Unknown format code '' @ quoted ''%'' @ '' for object of type ''
                      @ quoted ''str''))"
| "format_pct lib n (PDatetime t) = strftime lib t (''.'' @ nat_str n @ ''%'')"
| "format_pct lib n v =
     Inl (TypeError (''unsupported format string passed to '' @ type_name v @ ''.__format__''))"

section \<open>Quality rules (quality/quality\_checks.py)\<close>

datatype QualityStatus = PASS | FAIL | WARNING

record RuleResult =
  rule_name :: string
  passed :: bool
  details :: details
  severity :: string

record QualityResult =
  match_id :: pyval
  status :: QualityStatus
  errors :: "string list"
  warnings :: "string list"
  rule_results :: "RuleResult list"
  checked_at :: int

text \<open>
  A rule is a name and a check.  A check returns a \<open>RuleResult\<close> or raises, so its result
  is a sum.
\<close>

record QualityRule =
  name :: string
  check :: "pydict \<Rightarrow> exn + RuleResult"

subsection \<open>Completeness\<close>

definition check_completeness :: "string list \<Rightarrow> pydict \<Rightarrow> exn + RuleResult" where
  "check_completeness required_fields match_data =
     (let missing_fields =
            filter (\<lambda>f. \<not> has_key match_data f \<or> map_of match_data f = Some PNone)
                   required_fields;
          ok = (length missing_fields = 0)
      in Inr \<lparr>rule_name = ''completeness'', passed = ok,
               details = [(''missing_fields'', missing_fields)],
               severity = (if \<not> ok then ''error'' else ''info'')\<rparr>)"

subsection \<open>Validity\<close>

text \<open>
  \<open>isinstance(score, (int, float))\<close> holds for booleans too, and \<open>score < 0\<close> is then
  decided on the number.
\<close>

fun is_int_or_float :: "pyval \<Rightarrow> bool" where
  "is_int_or_float (PBool _) = True"
| "is_int_or_float (PInt _) = True"
| "is_int_or_float (PFloat _) = True"
| "is_int_or_float _ = False"

fun lt_zero :: "pyval \<Rightarrow> bool" where
  "lt_zero (PInt i) = (i < 0)"
| "lt_zero (PFloat (Fin r)) = (r < 0)"
| "lt_zero (PFloat NegInf) = True"
| "lt_zero _ = False"

definition score_invalid :: "pydict \<Rightarrow> string \<Rightarrow> bool" where
  "score_invalid match_data score_field =
     (has_key match_data score_field \<and>
      (let score = dict_get match_data score_field PNone
       in score \<noteq> PNone \<and> (\<not> is_int_or_float score \<or> lt_zero score)))"

text \<open>
  The body of the \<open>try\<close> around the date check: for a string it calls
  \<open>scheduled.replace('Z', '+00:00')\<close> and drops the result; nothing in it parses the
  value, and nothing in it raises.
\<close>

definition validity_try_scheduled :: "pyval \<Rightarrow> exn + unit" where
  "validity_try_scheduled scheduled =
     (case scheduled of
        PStr s \<Rightarrow> (let replaced = str_replace (CHR ''Z'') ''+00:00'' s in Inr ())
      | _ \<Rightarrow> Inr ())"

definition check_validity :: "pydict \<Rightarrow> exn + RuleResult" where
  "check_validity match_data =
     (let invalid_scores =
            map (\<lambda>f. f @ '': negative or invalid value'')
                (filter (score_invalid match_data) [''home_score'', ''away_score'']);
          invalid_fields =
            (if has_key match_data ''scheduled_at''
                \<and> py_truthy (dict_get match_data ''scheduled_at'' PNone)
             then (case validity_try_scheduled (dict_get match_data ''scheduled_at'' PNone) of
                     Inr _ \<Rightarrow> invalid_scores
                   | Inl e \<Rightarrow> invalid_scores @ [''scheduled_at: invalid datetime format''])
             else invalid_scores);
          ok = (length invalid_fields = 0)
      in Inr \<lparr>rule_name = ''validity'', passed = ok,
               details = [(''invalid_fields'', invalid_fields)],
               severity = (if \<not> ok then ''error'' else ''info'')\<rparr>)"

subsection \<open>Consistency\<close>

text \<open>\<open>team.get("id", "").lower()\<close>: only a string has \<open>lower\<close>.\<close>

definition team_id_lower :: "pylib \<Rightarrow> pydict \<Rightarrow> exn + string" where
  "team_id_lower lib team =
     (case dict_get team ''id'' (PStr '''') of
        PStr s \<Rightarrow> Inr (lower lib s)
      | v \<Rightarrow> Inl (no_attribute v ''lower''))"

definition same_team_errors :: "pylib \<Rightarrow> pydict \<Rightarrow> exn + string list" where
  "same_team_errors lib match_data =
     (if has_key match_data ''home_team'' \<and> has_key match_data ''away_team''
      then (case (dict_get match_data ''home_team'' PNone,
                  dict_get match_data ''away_team'' PNone) of
              (PDict home, PDict away) \<Rightarrow>
                (case team_id_lower lib home of
                   Inl e \<Rightarrow> Inl e
                 | Inr home_id \<Rightarrow>
                     (case team_id_lower lib away of
                        Inl e \<Rightarrow> Inl e
                      | Inr away_id \<Rightarrow>
                          Inr (if home_id \<noteq> [] \<and> away_id \<noteq> [] \<and> home_id = away_id
                               then [''same_team: home and away teams are identical'']
                               else [])))
            | _ \<Rightarrow> Inr [])
      else Inr [])"

definition check_consistency :: "pylib \<Rightarrow> pydict \<Rightarrow> exn + RuleResult" where
  "check_consistency lib match_data =
     (case same_team_errors lib match_data of
        Inl e \<Rightarrow> Inl e
      | Inr errs0 \<Rightarrow>
          (let errs =
                 (if \<not> has_key match_data ''home_team'' \<or> \<not> has_key match_data ''away_team''
                  then errs0 @ [''missing_team: need both home and away teams'']
                  else errs0);
               ok = (length errs = 0)
           in Inr \<lparr>rule_name = ''consistency'', passed = ok,
                    details = [(''errors'', errs)],
                    severity = (if \<not> ok then ''error'' else ''info'')\<rparr>))"

subsection \<open>Timeliness\<close>

text \<open>
  The body of the \<open>try\<close>: parse a string, take a datetime as it is, and compare the age
  with the maximum; every other object has no \<open>replace(tzinfo=...)\<close>.  The result is the
  list of errors appended in the body.  Times are in microseconds.
\<close>

definition timeliness_try :: "pylib \<Rightarrow> int \<Rightarrow> int \<Rightarrow> pyval \<Rightarrow> exn + string list" where
  "timeliness_try lib now max_age_hours scheduled_str =
     (case (case scheduled_str of
              PStr s \<Rightarrow> fromisoformat lib (str_replace (CHR ''Z'') ''+00:00'' s)
            | PDatetime t \<Rightarrow> Inr t
            | v \<Rightarrow> Inl (no_attribute v ''replace'')) of
        Inl e \<Rightarrow> Inl e
      | Inr scheduled \<Rightarrow>
          (let age = now - scheduled
           in if age > max_age_hours * 3600000000
              then Inr [''stale_data: match is '' @ fmt_f1 lib age @ '' hours old (max: ''
                         @ int_str max_age_hours @ '')'']
              else Inr []))"

definition check_timeliness :: "pylib \<Rightarrow> int \<Rightarrow> int \<Rightarrow> pydict \<Rightarrow> exn + RuleResult" where
  "check_timeliness lib now max_age_hours match_data =
     (let errs =
            (if has_key match_data ''scheduled_at''
                \<and> py_truthy (dict_get match_data ''scheduled_at'' PNone)
             then (case timeliness_try lib now max_age_hours
                          (dict_get match_data ''scheduled_at'' PNone) of
                     Inr es \<Rightarrow> es
                   | Inl e \<Rightarrow> [''timeliness_check_error: '' @ exn_str e])
             else []);
          ok = (length errs = 0)
      in Inr \<lparr>rule_name = ''timeliness'', passed = ok,
               details = [(''errors'', errs)],
               severity = (if \<not> ok then ''warning'' else ''info'')\<rparr>)"

subsection \<open>The rule factories and the default rules\<close>

definition completeness_check :: "string list \<Rightarrow> QualityRule" where
  "completeness_check required_fields =
     \<lparr>name = ''completeness'', check = check_completeness required_fields\<rparr>"

definition validity_check :: QualityRule where
  "validity_check = \<lparr>name = ''validity'', check = check_validity\<rparr>"

definition consistency_check :: "pylib \<Rightarrow> QualityRule" where
  "consistency_check lib = \<lparr>name = ''consistency'', check = check_consistency lib\<rparr>"

definition timeliness_check :: "pylib \<Rightarrow> int \<Rightarrow> int \<Rightarrow> QualityRule" where
  "timeliness_check lib now max_age_hours =
     \<lparr>name = ''timeliness'', check = check_timeliness lib now max_age_hours\<rparr>"

definition setup_default_rules :: "pylib \<Rightarrow> int \<Rightarrow> QualityRule list" where
  "setup_default_rules lib now =
     [completeness_check
        [''external_id'', ''home_team'', ''away_team'', ''scheduled_at'', ''season''],
      validity_check,
      consistency_check lib,
      timeliness_check lib now 24]"

subsection \<open>Validating a record and a batch\<close>

text \<open>
  The loop over the rules, with its three accumulators.  A result that did not pass goes
  to the errors when its severity is \<open>error\<close> and to the warnings otherwise; a rule that
  raised leaves one string in the errors and no \<open>RuleResult\<close>.
\<close>

fun run_rules ::
  "QualityRule list \<Rightarrow> pydict \<Rightarrow> string list \<times> string list \<times> RuleResult list
     \<Rightarrow> string list \<times> string list \<times> RuleResult list" where
  "run_rules [] match_data acc = acc"
| "run_rules (rule # rules) match_data (errs, warns, results) =
     (case check rule match_data of
        Inr result \<Rightarrow>
          run_rules rules match_data
            (if \<not> passed result
             then (if severity result = ''error''
                   then (errs @ [rule_name result @ '': '' @ repr_details (details result)],
                         warns, results @ [result])
                   else (errs,
                         warns @ [rule_name result @ '': '' @ repr_details (details result)],
                         results @ [result]))
             else (errs, warns, results @ [result]))
      | Inl e \<Rightarrow>
          run_rules rules match_data
            (errs @ [name rule @ ''_error: '' @ exn_str e], warns, results))"

definition validate_match :: "QualityRule list \<Rightarrow> int \<Rightarrow> pydict \<Rightarrow> QualityResult" where
  "validate_match rules now match_data =
     (case run_rules rules match_data ([], [], []) of
        (errs, warns, results) \<Rightarrow>
          \<lparr>match_id = dict_get match_data ''external_id'' (PStr ''unknown''),
           status = (if errs \<noteq> [] then FAIL else if warns \<noteq> [] then WARNING else PASS),
           errors = errs, warnings = warns, rule_results = results,
           checked_at = now\<rparr>)"

definition validate_batch :: "QualityRule list \<Rightarrow> int \<Rightarrow> pydict list \<Rightarrow> QualityResult list" where
  "validate_batch rules now matches = map (validate_match rules now) matches"

subsection \<open>The batch summary\<close>

text \<open>
  The threshold \<open>0.20\<close> and the rates are exact rationals.  The float quotient of two
  list lengths compares with the floats \<open>0.20\<close> and \<open>1 - 0.20\<close> exactly as the rational
  quotient compares with \<open>1/5\<close> and \<open>4/5\<close>, for every list shorter than \<open>2^53\<close>.
  The division raises on a zero divisor, so a summary is a sum.
\<close>

definition CRITICAL_FAILURE_THRESHOLD :: rat where
  "CRITICAL_FAILURE_THRESHOLD = 1 / 5"

definition truediv :: "int \<Rightarrow> int \<Rightarrow> exn + rat" where
  "truediv a b =
     (if b = 0 then Inl (ZeroDivisionError ''division by zero'')
      else Inr (of_int a / of_int b))"

definition get_quality_summary :: "pylib \<Rightarrow> QualityResult list \<Rightarrow> exn + pydict" where
  "get_quality_summary lib results =
     (let total = int (length results)
      in if total = 0
         then Inr [(''total_matches'', PInt 0), (''passed'', PInt 0), (''failed'', PInt 0),
                   (''pass_rate'', PFloat (Fin 0)), (''critical_failure'', PBool False)]
         else
           (let passed_count = int (length (filter (\<lambda>r. status r = PASS) results));
                failed_count = total - passed_count
            in case truediv passed_count total of
                 Inl e \<Rightarrow> Inl e
               | Inr pass_rate \<Rightarrow>
                   (let critical_failure = (pass_rate < 1 - CRITICAL_FAILURE_THRESHOLD)
                    in Inr [(''total_matches'', PInt total), (''passed'', PInt passed_count),
                            (''failed'', PInt failed_count),
                            (''pass_rate'', PFloat (Fin (round2 lib pass_rate))),
                            (''critical_failure'', PBool critical_failure),
                            (''threshold'', PFloat (Fin CRITICAL_FAILURE_THRESHOLD))])))"

section \<open>The fallback pipeline (pipelines/fallback\_pipeline.py)\<close>

datatype FallbackStatus = PENDING | TRIGGERED | SUCCESS | FAILED

record FallbackPipeline =
  fp_trace_id :: string
  fallback_url :: string
  fp_status :: FallbackStatus
  error_cause :: "string option"
  error_details :: "string option"
  was_triggered :: bool
  cascading_failure :: bool
  fallback_events :: "pydict list"
  triggered_at :: "int option"

text \<open>
  A pipeline as its constructor leaves it.  Both arguments are optional: \<open>x or default\<close>
  takes the default for \<open>None\<close> and for the empty string.  The default trace identifier is
  a fresh \<open>uuid4\<close>, which the constructor is given here.
\<close>

definition new_pipeline :: "string option \<Rightarrow> string option \<Rightarrow> string \<Rightarrow> FallbackPipeline" where
  "new_pipeline trace url uuid4 =
     \<lparr>fp_trace_id = str_or trace uuid4,
      fallback_url =
        str_or url ''https://api.thesportsdb.com/v1/json/3/eventsnextleague.php?id=4387'',
      fp_status = PENDING, error_cause = None,
      error_details = None, was_triggered = False, cascading_failure = False,
      fallback_events = [], triggered_at = None\<rparr>"

text \<open>
  The secondary source is outside the repository.  What the body of the \<open>try\<close> in
  \<open>fetch_from_fallback\<close> comes to is one of: the list \<open>matches\<close> it reaches the test
  \<open>if matches\<close> with, or an exception of one of the four classes the handlers
  tell apart (with the text the handler prints).  The network is a state: the answer to
  each request, and the number of requests made so far.
\<close>

datatype http_result =
    Matches "pyval list"
  | RaisesTimeout string
  | RaisesHTTPError string
  | RaisesRequestException string
  | RaisesException string

record network =
  respond :: "nat \<Rightarrow> http_result"
  requests :: nat

definition fp_failed :: "FallbackPipeline \<Rightarrow> string \<Rightarrow> string \<Rightarrow> FallbackPipeline" where
  "fp_failed p cause det =
     p\<lparr>fp_status := FAILED, error_cause := Some cause, error_details := Some det\<rparr>"

definition fetch_from_fallback ::
  "FallbackPipeline \<Rightarrow> network \<Rightarrow> pyval list option \<times> FallbackPipeline \<times> network" where
  "fetch_from_fallback p0 net =
     (let p = p0\<lparr>fp_status := TRIGGERED\<rparr>;
          net' = net\<lparr>requests := requests net + 1\<rparr>
      in case respond net (requests net) of
           Matches matches \<Rightarrow>
             (if matches \<noteq> [] then (Some matches, p\<lparr>fp_status := SUCCESS\<rparr>, net')
              else (None,
                    fp_failed p ''FALLBACK_EMPTY_RESPONSE'' ''Fallback API returned empty data'',
                    net'))
         | RaisesTimeout e \<Rightarrow>
             (None, fp_failed p ''FALLBACK_TIMEOUT'' (''Fallback API timeout: '' @ e), net')
         | RaisesHTTPError code \<Rightarrow>
             (None, fp_failed p ''FALLBACK_HTTP_ERROR'' (''HTTP '' @ code), net')
         | RaisesRequestException e \<Rightarrow>
             (None, fp_failed p ''FALLBACK_UNAVAILABLE'' e, net')
         | RaisesException e \<Rightarrow>
             (None, fp_failed p ''FALLBACK_ERROR'' e, net'))"

definition triggered_event ::
  "pylib \<Rightarrow> int \<Rightarrow> string \<Rightarrow> int \<Rightarrow> int \<Rightarrow> rat \<Rightarrow> pydict" where
  "triggered_event lib t trace total_count fail_count fail_rate =
     [(''type'', PStr ''FALLBACK_TRIGGERED''),
      (''timestamp'', PStr (isoformat lib t)),
      (''reason'', PStr (''Quality failure rate '' @ fmt_pct lib 1 (Fin fail_rate)
                         @ '' exceeds threshold ''
                         @ fmt_pct lib 0 (Fin CRITICAL_FAILURE_THRESHOLD))),
      (''quality_summary'',
         PDict [(''total'', PInt total_count), (''failed'', PInt fail_count),
                (''fail_rate'', PFloat (Fin (round2 lib fail_rate)))]),
      (''trace_id'', PStr trace)]"

definition fail_event :: "pylib \<Rightarrow> int \<Rightarrow> FallbackPipeline \<Rightarrow> pydict" where
  "fail_event lib t p =
     [(''type'', PStr ''FALLBACK_FAILED''),
      (''timestamp'', PStr (isoformat lib t)),
      (''reason'', PStr (case error_cause p of
                           None \<Rightarrow> ''Unknown''
                         | Some c \<Rightarrow> (if c = [] then ''Unknown'' else c))),
      (''details'', (case error_details p of None \<Rightarrow> PNone | Some d \<Rightarrow> PStr d)),
      (''cascading_failure'', PBool True),
      (''trace_id'', PStr (fp_trace_id p))]"

definition success_event :: "pylib \<Rightarrow> int \<Rightarrow> string \<Rightarrow> pyval list \<Rightarrow> pydict" where
  "success_event lib t trace fallback_data =
     [(''type'', PStr ''FALLBACK_SUCCESS''),
      (''timestamp'', PStr (isoformat lib t)),
      (''matches_recovered'', PInt (int (length fallback_data))),
      (''trace_id'', PStr trace)]"

text \<open>
  \<open>trigger_fallback_if_needed\<close> with the two clock readings it takes (when it fires, and
  when the fetch is over).  It counts the results whose status is \<open>FAIL\<close> and does not
  fire when their rate is below the threshold.
\<close>

definition trigger_fallback_if_needed ::
  "pylib \<Rightarrow> int \<Rightarrow> int \<Rightarrow> QualityResult list \<Rightarrow> FallbackPipeline \<Rightarrow> network
     \<Rightarrow> exn + (pyval list option \<times> FallbackPipeline \<times> network)" where
  "trigger_fallback_if_needed lib t_trigger t_done quality_results p net =
     (if quality_results = [] then Inr (None, p, net)
      else
        (let fail_count = int (length (filter (\<lambda>r. status r = FAIL) quality_results));
             total_count = int (length quality_results)
         in case truediv fail_count total_count of
              Inl e \<Rightarrow> Inl e
            | Inr fail_rate \<Rightarrow>
                (if fail_rate < CRITICAL_FAILURE_THRESHOLD
                 then Inr (None, p\<lparr>was_triggered := False\<rparr>, net)
                 else
                   (let p1 = p\<lparr>was_triggered := True, triggered_at := Some t_trigger\<rparr>;
                        p2 = p1\<lparr>fallback_events := fallback_events p1 @
                                 [triggered_event lib t_trigger (fp_trace_id p1)
                                    total_count fail_count fail_rate]\<rparr>
                    in case fetch_from_fallback p2 net of
                         (None, p3, net') \<Rightarrow>
                           (let p4 = p3\<lparr>cascading_failure := True\<rparr>
                            in Inr (None,
                                    p4\<lparr>fallback_events := fallback_events p4 @
                                          [fail_event lib t_done p4]\<rparr>,
                                    net'))
                       | (Some fallback_data, p3, net') \<Rightarrow>
                           Inr (Some fallback_data,
                                p3\<lparr>fallback_events := fallback_events p3 @
                                      [success_event lib t_done (fp_trace_id p3) fallback_data]\<rparr>,
                                net')))))"

definition get_fallback_report :: "pylib \<Rightarrow> FallbackPipeline \<Rightarrow> pydict" where
  "get_fallback_report lib p =
     [(''was_triggered'', PBool (was_triggered p)),
      (''status'', PStr (case fp_status p of
                           PENDING \<Rightarrow> ''pending'' | TRIGGERED \<Rightarrow> ''triggered''
                         | SUCCESS \<Rightarrow> ''success'' | FAILED \<Rightarrow> ''failed'')),
      (''triggered_at'', (case triggered_at p of
                            None \<Rightarrow> PNone | Some t \<Rightarrow> PStr (isoformat lib t))),
      (''cascading_failure'', PBool (cascading_failure p)),
      (''error_cause'', (case error_cause p of None \<Rightarrow> PNone | Some c \<Rightarrow> PStr c)),
      (''error_details'', (case error_details p of None \<Rightarrow> PNone | Some d \<Rightarrow> PStr d)),
      (''events'', PList (map PDict (fallback_events p))),
      (''trace_id'', PStr (fp_trace_id p))]"

section \<open>The no-bet guard (policy/no\_bet\_guard.py)\<close>

datatype DegradedMode = NORMAL | DEGRADED_FALLBACK | DEGRADED_NO_BET

fun mode_value :: "DegradedMode \<Rightarrow> string" where
  "mode_value NORMAL = ''normal''"
| "mode_value DEGRADED_FALLBACK = ''degraded-fallback''"
| "mode_value DEGRADED_NO_BET = ''degraded-no-bet''"

record GuardDecision =
  mode :: DegradedMode
  allow_betting :: bool
  reason :: string
  timestamp :: int
  metadata :: pydict

record NoBetGuard =
  trace_id :: string
  is_degraded :: bool
  current_mode :: DegradedMode
  audit_trail :: "pydict list"

definition new_guard :: "string option \<Rightarrow> string \<Rightarrow> NoBetGuard" where
  "new_guard trace uuid4 =
     \<lparr>trace_id = str_or trace uuid4, is_degraded = False, current_mode = NORMAL, audit_trail = []\<rparr>"

text \<open>
  The audit entry copies four keys of the summary it is given (\<open>get\<close> without a default
  gives \<open>None\<close> for a missing key) and appends itself to the trail.
\<close>

definition audit_entry :: "pylib \<Rightarrow> int \<Rightarrow> string \<Rightarrow> GuardDecision \<Rightarrow> pydict \<Rightarrow> pydict" where
  "audit_entry lib t trace decision quality_summary =
     [(''timestamp'', PStr (isoformat lib t)),
      (''mode'', PStr (mode_value (mode decision))),
      (''allow_betting'', PBool (allow_betting decision)),
      (''reason'', PStr (reason decision)),
      (''quality_summary'',
         PDict [(''pass_rate'', dict_get quality_summary ''pass_rate'' PNone),
                (''critical_failure'', dict_get quality_summary ''critical_failure'' PNone),
                (''total_matches'', dict_get quality_summary ''total_matches'' PNone),
                (''failed'', dict_get quality_summary ''failed'' PNone)]),
      (''trace_id'', PStr trace)]"

definition log_decision ::
  "pylib \<Rightarrow> int \<Rightarrow> GuardDecision \<Rightarrow> pydict \<Rightarrow> NoBetGuard \<Rightarrow> NoBetGuard" where
  "log_decision lib t decision quality_summary g =
     g\<lparr>audit_trail := audit_trail g @ [audit_entry lib t (trace_id g) decision quality_summary]\<rparr>"

text \<open>
  \<open>evaluate_run_status\<close> with its two clock readings (the decision's timestamp and the
  audit entry's).  Its first statement formats the pass rate for the log, which raises on
  a value that is not a number; the reasons of the two degraded branches format it again.
\<close>

definition evaluate_run_status ::
  "pylib \<Rightarrow> int \<Rightarrow> int \<Rightarrow> pydict \<Rightarrow> pyval list option \<Rightarrow> NoBetGuard
     \<Rightarrow> exn + (GuardDecision \<times> NoBetGuard)" where
  "evaluate_run_status lib t_decision t_audit quality_summary fallback_result g =
     (let critical_failure = dict_get quality_summary ''critical_failure'' (PBool False);
          pass_rate = dict_get quality_summary ''pass_rate'' (PFloat (Fin 1))
      in case format_pct lib 1 pass_rate of
           Inl e \<Rightarrow> Inl e
         | Inr logged \<Rightarrow>
             (case (if \<not> py_truthy critical_failure
                    then Inr \<lparr>mode = NORMAL, allow_betting = True,
                              reason = ''Qualite des donnees acceptable'',
                              timestamp = t_decision,
                              metadata = [(''quality_pass_rate'', pass_rate),
                                          (''critical_failure'', PBool False)]\<rparr>
                    else (case format_pct lib 0 pass_rate of
                            Inl e \<Rightarrow> Inl e
                          | Inr pct \<Rightarrow>
                              (case fallback_result of
                                 Some fb \<Rightarrow>
                                   Inr \<lparr>mode = DEGRADED_FALLBACK, allow_betting = True,
                                        reason = ''Qualite critique ('' @ pct
                                          @ '' pass) mais fallback reussi - ''
                                          @ ''utilisation donnees secondaires avec vigilance'',
                                        timestamp = t_decision,
                                        metadata = [(''quality_pass_rate'', pass_rate),
                                                    (''critical_failure'', PBool True),
                                                    (''fallback_used'', PBool True),
                                                    (''fallback_matches'',
                                                       PInt (int (length fb)))]\<rparr>
                               | None \<Rightarrow>
                                   Inr \<lparr>mode = DEGRADED_NO_BET, allow_betting = False,
                                        reason = ''QUALITE INSUFFISANTE ('' @ pct
                                          @ '' pass) ET FALLBACK EN ECHEC - ''
                                          @ ''Systeme en mode no-bet pour protection. ''
                                          @ ''Donnees corrompues ou incompletes detectees. ''
                                          @ ''Requiert investigation operateur.'',
                                        timestamp = t_decision,
                                        metadata = [(''quality_pass_rate'', pass_rate),
                                                    (''critical_failure'', PBool True),
                                                    (''fallback_used'', PBool False),
                                                    (''fallback_failed'', PBool True),
                                                    (''blocking_reason'',
                                                       PStr ''cascading_failure'')]\<rparr>))) of
                Inl e \<Rightarrow> Inl e
              | Inr decision \<Rightarrow>
                  Inr (decision,
                       log_decision lib t_audit decision quality_summary
                         (g\<lparr>current_mode := mode decision,
                            is_degraded := (mode decision \<noteq> NORMAL)\<rparr>))))"

definition force_degraded_mode ::
  "pylib \<Rightarrow> int \<Rightarrow> int \<Rightarrow> string \<Rightarrow> NoBetGuard \<Rightarrow> GuardDecision \<times> NoBetGuard" where
  "force_degraded_mode lib t_decision t_audit why g =
     (let decision = \<lparr>mode = DEGRADED_NO_BET, allow_betting = False,
                       reason = ''FORCAGE MANUEL: '' @ why, timestamp = t_decision,
                       metadata = [(''forced'', PBool True)]\<rparr>
      in (decision,
          log_decision lib t_audit decision [(''forced'', PBool True)]
            (g\<lparr>current_mode := mode decision, is_degraded := True\<rparr>)))"

definition reset_to_normal ::
  "pylib \<Rightarrow> int \<Rightarrow> int \<Rightarrow> string \<Rightarrow> NoBetGuard \<Rightarrow> GuardDecision \<times> NoBetGuard" where
  "reset_to_normal lib t_decision t_audit why g =
     (let decision = \<lparr>mode = NORMAL, allow_betting = True,
                       reason = ''RETOUR NORMAL: '' @ why, timestamp = t_decision,
                       metadata = [(''reset'', PBool True)]\<rparr>
      in (decision,
          log_decision lib t_audit decision [(''reset'', PBool True)]
            (g\<lparr>current_mode := mode decision, is_degraded := False\<rparr>)))"

section \<open>Persisting the signals (storage/postgres\_writer.py, pipelines/scoring\_pipeline.py)\<close>

text \<open>
  The storage is a map from the row identifier to the row.  The construction of one
  \<open>SignalEntity\<close> from the run identifier and a signal is a parameter: it gives the
  identifier and the row, or raises (a \<open>scheduled_at\<close> that is not an ISO string).
  What the database does during one call of \<open>save_signals\<close> is a \<open>db_fault\<close>: nothing
  wrong, no connection, the merge of the \<open>k\<close>-th row raising, or the commit raising.
  \<open>session.begin()\<close> is a transaction: the merges go to a pending copy of the storage,
  which replaces the storage at the commit and is dropped when anything raised.
\<close>

datatype db_fault = NoFault | ConnectFails string | MergeFails nat string | CommitFails string

type_synonym 'row builder = "string \<Rightarrow> pydict \<Rightarrow> exn + (string \<times> 'row)"

fun build_entities ::
  "'row builder \<Rightarrow> string \<Rightarrow> pydict list \<Rightarrow> exn + (string \<times> 'row) list" where
  "build_entities build run_id [] = Inr []"
| "build_entities build run_id (signal_data # rest) =
     (case build run_id signal_data of
        Inl e \<Rightarrow> Inl e
      | Inr entity \<Rightarrow>
          (case build_entities build run_id rest of
             Inl e \<Rightarrow> Inl e
           | Inr entities \<Rightarrow> Inr (entity # entities)))"

definition merge_raises :: "db_fault \<Rightarrow> nat \<Rightarrow> exn option" where
  "merge_raises fault k =
     (case fault of
        MergeFails j msg \<Rightarrow> (if j = k then Some (OtherError msg) else None)
      | _ \<Rightarrow> None)"

fun merge_entities ::
  "db_fault \<Rightarrow> nat \<Rightarrow> (string \<times> 'row) list \<Rightarrow> (string \<rightharpoonup> 'row) \<Rightarrow> exn + (string \<rightharpoonup> 'row)" where
  "merge_entities fault k [] pending = Inr pending"
| "merge_entities fault k ((key, row) # rest) pending =
     (case merge_raises fault k of
        Some e \<Rightarrow> Inl e
      | None \<Rightarrow> merge_entities fault (Suc k) rest (pending(key \<mapsto> row)))"

definition save_signals ::
  "'row builder \<Rightarrow> db_fault \<Rightarrow> string \<Rightarrow> pydict list \<Rightarrow> (string \<rightharpoonup> 'row)
     \<Rightarrow> (exn + nat) \<times> (string \<rightharpoonup> 'row)" where
  "save_signals build fault run_id signals storage =
     (case fault of
        ConnectFails msg \<Rightarrow> (Inl (OtherError msg), storage)
      | _ \<Rightarrow>
          (case build_entities build run_id signals of
             Inl e \<Rightarrow> (Inl e, storage)
           | Inr signal_entities \<Rightarrow>
               (case merge_entities fault 0 signal_entities storage of
                  Inl e \<Rightarrow> (Inl e, storage)
                | Inr pending \<Rightarrow>
                    (case fault of
                       CommitFails msg \<Rightarrow> (Inl (OtherError msg), storage)
                     | _ \<Rightarrow> (Inr (length signal_entities), pending)))))"

text \<open>
  The retry loop over the attempts \<open>1, ..., max_retries\<close>.  Its state is the storage,
  the number of calls of \<open>save_signals\<close> made, and the sleeps taken (in seconds).  The
  database's behaviour at each attempt is a parameter.
\<close>

record 'row retry_state =
  storage :: "string \<rightharpoonup> 'row"
  save_calls :: nat
  sleeps :: "rat list"

fun retry_loop ::
  "'row builder \<Rightarrow> (int \<Rightarrow> db_fault) \<Rightarrow> int \<Rightarrow> string \<Rightarrow> pydict list \<Rightarrow> int list
     \<Rightarrow> 'row retry_state \<Rightarrow> bool \<times> 'row retry_state" where
  "retry_loop build db max_retries run_id signals [] st = (False, st)"
| "retry_loop build db max_retries run_id signals (attempt # rest) st =
     (case save_signals build (db attempt) run_id signals (storage st) of
        (Inr n, storage') \<Rightarrow>
          (True, st\<lparr>storage := storage', save_calls := save_calls st + 1\<rparr>)
      | (Inl e, storage') \<Rightarrow>
          retry_loop build db max_retries run_id signals rest
            (st\<lparr>storage := storage', save_calls := save_calls st + 1,
                sleeps := (if attempt < max_retries
                           then sleeps st @ [1 / 2 * of_int attempt] else sleeps st)\<rparr>))"

definition persist_signals_with_retry ::
  "'row builder \<Rightarrow> (int \<Rightarrow> db_fault) \<Rightarrow> int \<Rightarrow> string \<Rightarrow> pydict list
     \<Rightarrow> 'row retry_state \<Rightarrow> bool \<times> 'row retry_state" where
  "persist_signals_with_retry build db max_retries run_id signals st =
     retry_loop build db max_retries run_id signals [1..max_retries] st"

text \<open>An attempt fails when \<open>save_signals\<close> raises.\<close>

definition attempt_fails ::
  "'row builder \<Rightarrow> db_fault \<Rightarrow> string \<Rightarrow> pydict list \<Rightarrow> (string \<rightharpoonup> 'row) \<Rightarrow> bool" where
  "attempt_fails build fault run_id signals st =
     isl (fst (save_signals build fault run_id signals st))"

section \<open>Notions used in the statements\<close>

text \<open>The values that \<open>:.n%\<close> formats without raising: the numbers that fit a float.\<close>

fun formattable :: "pyval \<Rightarrow> bool" where
  "formattable (PFloat f) = True"
| "formattable (PInt i) = (\<bar>i\<bar> < 2 ^ 1024 - 2 ^ 970)"
| "formattable (PBool b) = True"
| "formattable _ = False"

text \<open>
  The status as the specification derives it from the rule outcomes: \<open>fail\<close> if an
  outcome of severity \<open>error\<close> failed, else \<open>warning\<close> if one of severity \<open>warning\<close>
  failed, else \<open>pass\<close>.
\<close>

definition spec_status :: "RuleResult list \<Rightarrow> QualityStatus" where
  "spec_status outcomes =
     (if list_ex (\<lambda>r. \<not> passed r \<and> severity r = ''error'') outcomes then FAIL
      else if list_ex (\<lambda>r. \<not> passed r \<and> severity r = ''warning'') outcomes then WARNING
      else PASS)"

text \<open>
  What the loop of \<open>validate_match\<close> collects, rule by rule: whether the rule raises,
  the results recorded, and the lines added to the errors and to the warnings.
\<close>

definition raises :: "QualityRule \<Rightarrow> pydict \<Rightarrow> bool" where
  "raises rule match_data = isl (check rule match_data)"

definition recorded_results :: "QualityRule list \<Rightarrow> pydict \<Rightarrow> RuleResult list" where
  "recorded_results rules match_data =
     List.map_filter (\<lambda>rule. case check rule match_data of Inr r \<Rightarrow> Some r | Inl e \<Rightarrow> None) rules"

definition error_lines :: "QualityRule \<Rightarrow> pydict \<Rightarrow> string list" where
  "error_lines rule match_data =
     (case check rule match_data of
        Inl e \<Rightarrow> [name rule @ ''_error: '' @ exn_str e]
      | Inr r \<Rightarrow> (if \<not> passed r \<and> severity r = ''error''
                  then [rule_name r @ '': '' @ repr_details (details r)] else []))"

definition warning_lines :: "QualityRule \<Rightarrow> pydict \<Rightarrow> string list" where
  "warning_lines rule match_data =
     (case check rule match_data of
        Inl e \<Rightarrow> []
      | Inr r \<Rightarrow> (if \<not> passed r \<and> severity r \<noteq> ''error''
                  then [rule_name r @ '': '' @ repr_details (details r)] else []))"

text \<open>
  The two rates of a batch: the share of results with status \<open>PASS\<close>, which the summary
  uses, and the share with status \<open>FAIL\<close>, which the fallback trigger uses.
\<close>

definition pass_rate_of :: "QualityResult list \<Rightarrow> rat" where
  "pass_rate_of results =
     of_nat (length (filter (\<lambda>r. status r = PASS) results)) / of_nat (length results)"

definition fail_rate_of :: "QualityResult list \<Rightarrow> rat" where
  "fail_rate_of results =
     of_nat (length (filter (\<lambda>r. status r = FAIL) results)) / of_nat (length results)"

section \<open>Sample values\<close>

text \<open>
  A library instance, used to run the definitions on concrete inputs.  Its \<open>lower\<close> maps
  the ASCII capitals, which is what \<open>str.lower\<close> does on ASCII text.
\<close>

definition ascii_char_lower :: "char \<Rightarrow> char" where
  "ascii_char_lower c =
     (let n = (of_char c :: nat) in if 65 \<le> n \<and> n \<le> 90 then char_of (n + 32) else c)"

definition ascii_lower :: "string \<Rightarrow> string" where
  "ascii_lower s = map ascii_char_lower s"

definition sample_uuid :: string where
  "sample_uuid = ''6f1c2a9e-3b7d-4c58-9e21-5a0d4b8c7f13''"

definition sample_lib :: pylib where
  "sample_lib =
     \<lparr>round2 = (\<lambda>r. r), fmt_pct = (\<lambda>n f. ''?%''), fmt_f1 = (\<lambda>a. ''?''),
      fromisoformat = (\<lambda>s. if s = ''2024-01-15T20:00:00+00:00'' then Inr 0
                              else Inl (ValueError (''Invalid isoformat string: '' @ repr_str s))),
      isoformat = (\<lambda>t. ''T'' @ int_str t),
      strftime = (\<lambda>t f. Inr f),
      lower = ascii_lower\<rparr>"

text \<open>
  A builder that raises on a \<open>scheduled_at\<close> that is not a string, a batch of two
  signals, an empty storage, and two databases: one that times out at the first two
  commits, one that always breaks at the second merge.
\<close>

definition sample_build :: "pydict builder" where
  "sample_build run_id signal_data =
     (case dict_get signal_data ''scheduled_at'' (PStr ''2024-01-15T20:00:00Z'') of
        PStr s \<Rightarrow> (case dict_get signal_data ''match_id'' PNone of
                     PStr m \<Rightarrow> Inr (run_id @ ''_'' @ m, signal_data)
                   | _ \<Rightarrow> Inr (run_id @ ''_None'', signal_data))
      | v \<Rightarrow> Inl (no_attribute v ''replace''))"

definition sample_signals :: "pydict list" where
  "sample_signals = [[(''match_id'', PStr ''m1'')], [(''match_id'', PStr ''m2'')]]"

definition fresh_state :: "pydict retry_state" where
  "fresh_state = \<lparr>storage = Map.empty, save_calls = 0, sleeps = []\<rparr>"

definition db_two_timeouts :: "int \<Rightarrow> db_fault" where
  "db_two_timeouts attempt = (if attempt < 3 then CommitFails ''Timeout'' else NoFault)"

definition db_merge_breaks :: "int \<Rightarrow> db_fault" where
  "db_merge_breaks attempt = MergeFails 1 ''connection lost''"

text \<open>
  Two records: one whose home team has a number as its identifier (its
  \<open>scheduled_at\<close> is the empty string, which is present and not \<open>None\<close>, and which the
  date checks skip), and one with the same team twice.
\<close>

definition record_with_numeric_team_id :: pydict where
  "record_with_numeric_team_id =
     [(''external_id'', PStr ''nba-001''),
      (''home_team'', PDict [(''id'', PInt 5), (''name'', PStr ''Lakers'')]),
      (''away_team'', PDict [(''id'', PStr ''gsw''), (''name'', PStr ''Warriors'')]),
      (''scheduled_at'', PStr ''''),
      (''season'', PStr ''2023-24'')]"

definition record_same_team :: pydict where
  "record_same_team =
     [(''external_id'', PStr ''nba-2024-001''),
      (''home_team'', PDict [(''id'', PStr ''lal''), (''name'', PStr ''Lakers'')]),
      (''away_team'', PDict [(''id'', PStr ''LAL''), (''name'', PStr ''Lakers'')])]"

text \<open>
  A validation result with a given status, a new pipeline, and a network whose every
  request times out.
\<close>

definition result_with :: "QualityStatus \<Rightarrow> QualityResult" where
  "result_with s =
     \<lparr>match_id = PStr ''nba-001'', status = s, errors = [], warnings = [], rule_results = [],
      checked_at = 0\<rparr>"

definition sample_pipeline :: FallbackPipeline where
  "sample_pipeline =
     new_pipeline (Some ''test-trace-123'') (Some ''https://api.backup-nba.com/games'')
       sample_uuid"

definition network_down :: network where
  "network_down = \<lparr>respond = (\<lambda>k. RaisesTimeout ''Fallback API timeout''), requests = 0\<rparr>"

text \<open>
  A batch of five failures, its summary, and the summary of a batch of one warning.
\<close>

definition five_failures :: "QualityResult list" where
  "five_failures = replicate 5 (result_with FAIL)"

definition summary_of_five_failures :: pydict where
  "summary_of_five_failures =
     [(''total_matches'', PInt 5), (''passed'', PInt 0), (''failed'', PInt 5),
      (''pass_rate'', PFloat (Fin 0)), (''critical_failure'', PBool True),
      (''threshold'', PFloat (Fin (1 / 5)))]"

definition summary_of_one_warning :: pydict where
  "summary_of_one_warning =
     [(''total_matches'', PInt 1), (''passed'', PInt 0), (''failed'', PInt 1),
      (''pass_rate'', PFloat (Fin 0)), (''critical_failure'', PBool True),
      (''threshold'', PFloat (Fin (1 / 5)))]"

section \<open>Properties of the guard\<close>

lemma format_pct_formattable:
  "formattable v \<Longrightarrow> \<exists>s. format_pct lib n v = Inr s"
  by (cases v) auto

lemma evaluate_run_status_cases:
  assumes "formattable (dict_get qs ''pass_rate'' (PFloat (Fin 1)))"
  shows "\<exists>d. evaluate_run_status lib t1 t2 qs fb g =
            Inr (d, log_decision lib t2 d qs
                      (g\<lparr>current_mode := mode d, is_degraded := (mode d \<noteq> NORMAL)\<rparr>))
          \<and> timestamp d = t1
          \<and> (\<not> py_truthy (dict_get qs ''critical_failure'' (PBool False)) \<longrightarrow>
               mode d = NORMAL \<and> allow_betting d
               \<and> metadata d = [(''quality_pass_rate'', dict_get qs ''pass_rate'' (PFloat (Fin 1))),
                               (''critical_failure'', PBool False)])
          \<and> (py_truthy (dict_get qs ''critical_failure'' (PBool False)) \<and> fb \<noteq> None \<longrightarrow>
               mode d = DEGRADED_FALLBACK \<and> allow_betting d)
          \<and> (py_truthy (dict_get qs ''critical_failure'' (PBool False)) \<and> fb = None \<longrightarrow>
               mode d = DEGRADED_NO_BET \<and> \<not> allow_betting d)"
proof -
  obtain s1 where s1: "format_pct lib 1 (dict_get qs ''pass_rate'' (PFloat (Fin 1))) = Inr s1"
    using format_pct_formattable [OF assms] by blast
  obtain s0 where s0: "format_pct lib 0 (dict_get qs ''pass_rate'' (PFloat (Fin 1))) = Inr s0"
    using format_pct_formattable [OF assms] by blast
  show ?thesis
  proof (cases "py_truthy (dict_get qs ''critical_failure'' (PBool False))")
    case False
    with s1 show ?thesis by (simp add: evaluate_run_status_def Let_def)
  next
    case True
    with s1 s0 show ?thesis by (cases fb) (simp_all add: evaluate_run_status_def Let_def)
  qed
qed

text \<open>
  Claim C1.  For every quality summary whose pass rate is a number (or is missing) and
  every fallback outcome, \<open>evaluate_run_status\<close> returns a decision: mode \<open>normal\<close>
  with betting allowed when the summary's critical-failure value is false; mode
  \<open>degraded-fallback\<close> with betting allowed when it is true and the fallback outcome is
  not \<open>None\<close>; mode \<open>degraded-no-bet\<close> with betting refused when it is true and the
  fallback outcome is \<open>None\<close>.
\<close>

theorem guard_decision_table:
  assumes "formattable (dict_get qs ''pass_rate'' (PFloat (Fin 1)))"
  shows "\<exists>d g'. evaluate_run_status lib t1 t2 qs fb g = Inr (d, g')
          \<and> (\<not> py_truthy (dict_get qs ''critical_failure'' (PBool False)) \<longrightarrow>
               mode d = NORMAL \<and> allow_betting d)
          \<and> (py_truthy (dict_get qs ''critical_failure'' (PBool False)) \<and> fb \<noteq> None \<longrightarrow>
               mode d = DEGRADED_FALLBACK \<and> allow_betting d)
          \<and> (py_truthy (dict_get qs ''critical_failure'' (PBool False)) \<and> fb = None \<longrightarrow>
               mode d = DEGRADED_NO_BET \<and> \<not> allow_betting d)"
  using evaluate_run_status_cases [OF assms, of lib t1 t2 fb g] by blast

text \<open>
  The three branches at the summaries of the repository's tests.
\<close>

theorem guard_decision_table_witness:
  "formattable (dict_get [(''critical_failure'', PBool False), (''pass_rate'', PFloat (Fin (19 / 20)))]
                  ''pass_rate'' (PFloat (Fin 1)))
   \<and> (\<exists>d g'. evaluate_run_status sample_lib 0 1
                 [(''critical_failure'', PBool False), (''pass_rate'', PFloat (Fin (19 / 20)))]
                 None (new_guard (Some ''t'') sample_uuid) = Inr (d, g')
             \<and> mode d = NORMAL \<and> allow_betting d)
   \<and> (\<exists>d g'. evaluate_run_status sample_lib 0 1
                 [(''critical_failure'', PBool True), (''pass_rate'', PFloat (Fin (3 / 5)))]
                 (Some [PDict [(''external_id'', PStr ''fb-001'')]]) (new_guard (Some ''t'') sample_uuid) = Inr (d, g')
             \<and> mode d = DEGRADED_FALLBACK \<and> allow_betting d)
   \<and> (\<exists>d g'. evaluate_run_status sample_lib 0 1
                 [(''critical_failure'', PBool True), (''pass_rate'', PFloat (Fin (1 / 2)))]
                 None (new_guard (Some ''t'') sample_uuid) = Inr (d, g')
             \<and> mode d = DEGRADED_NO_BET \<and> \<not> allow_betting d)"
  using guard_decision_table
          [of "[(''critical_failure'', PBool False), (''pass_rate'', PFloat (Fin (19 / 20)))]"
              sample_lib 0 1 None "new_guard (Some ''t'') sample_uuid"]
        guard_decision_table
          [of "[(''critical_failure'', PBool True), (''pass_rate'', PFloat (Fin (3 / 5)))]"
              sample_lib 0 1 "Some [PDict [(''external_id'', PStr ''fb-001'')]]" "new_guard (Some ''t'') sample_uuid"]
        guard_decision_table
          [of "[(''critical_failure'', PBool True), (''pass_rate'', PFloat (Fin (1 / 2)))]"
              sample_lib 0 1 None "new_guard (Some ''t'') sample_uuid"]
  by (simp add: dict_get_def)




text \<open>
  Each of the three operations appends one entry to the audit trail and keeps the
  entries that were there, in their order.
\<close>

lemma evaluate_appends_one:
  assumes "formattable (dict_get qs ''pass_rate'' (PFloat (Fin 1)))"
  shows "\<exists>d g'. evaluate_run_status lib t1 t2 qs fb g = Inr (d, g')
          \<and> audit_trail g' = audit_trail g @ [audit_entry lib t2 (trace_id g) d qs]"
  using evaluate_run_status_cases [OF assms, of lib t1 t2 fb g]
  by (auto simp: log_decision_def)

lemma force_appends_one:
  "audit_trail (snd (force_degraded_mode lib t1 t2 why g)) =
     audit_trail g @ [audit_entry lib t2 (trace_id g)
                        (fst (force_degraded_mode lib t1 t2 why g)) [(''forced'', PBool True)]]"
  by (simp add: force_degraded_mode_def log_decision_def Let_def)

lemma reset_appends_one:
  "audit_trail (snd (reset_to_normal lib t1 t2 why g)) =
     audit_trail g @ [audit_entry lib t2 (trace_id g)
                        (fst (reset_to_normal lib t1 t2 why g)) [(''reset'', PBool True)]]"
  by (simp add: reset_to_normal_def log_decision_def Let_def)

text \<open>
  Claim C9, at \<open>force_degraded_mode\<close> and \<open>reset_to_normal\<close>.  Each appends one entry
  to the audit trail and keeps the others.  The decision returned carries
  \<open>forced = True\<close> (\<open>reset = True\<close>) in its metadata.  The entry appended does not: \<open>log_decision\<close> is handed the dictionary \<open>{"forced": True}\<close> as
  the summary and copies only the four summary keys out of it, so the entry holds four
  \<open>None\<close> values and no \<open>forced\<close> or \<open>reset\<close> mark.
\<close>

theorem forced_audit_entry_has_no_forced_flag:
  "metadata (fst (force_degraded_mode lib t1 t2 why g)) = [(''forced'', PBool True)]
   \<and> audit_trail (snd (force_degraded_mode lib t1 t2 why g)) = audit_trail g @
      [[(''timestamp'', PStr (isoformat lib t2)),
        (''mode'', PStr ''degraded-no-bet''),
        (''allow_betting'', PBool False),
        (''reason'', PStr (''FORCAGE MANUEL: '' @ why)),
        (''quality_summary'',
           PDict [(''pass_rate'', PNone), (''critical_failure'', PNone),
                  (''total_matches'', PNone), (''failed'', PNone)]),
        (''trace_id'', PStr (trace_id g))]]
   \<and> metadata (fst (reset_to_normal lib t1 t2 why g)) = [(''reset'', PBool True)]
   \<and> audit_trail (snd (reset_to_normal lib t1 t2 why g)) = audit_trail g @
      [[(''timestamp'', PStr (isoformat lib t2)),
        (''mode'', PStr ''normal''),
        (''allow_betting'', PBool True),
        (''reason'', PStr (''RETOUR NORMAL: '' @ why)),
        (''quality_summary'',
           PDict [(''pass_rate'', PNone), (''critical_failure'', PNone),
                  (''total_matches'', PNone), (''failed'', PNone)]),
        (''trace_id'', PStr (trace_id g))]]"
  by (simp add: force_degraded_mode_def reset_to_normal_def log_decision_def audit_entry_def
                dict_get_def Let_def)

section \<open>Properties of the retrying persistence\<close>

text \<open>
  A call of \<open>save_signals\<close> that raises leaves the storage as it was, and a call that
  returns has merged every row of the batch.
\<close>

lemma save_signals_failure_keeps_storage:
  "isl (fst (save_signals build fault run_id signals st)) \<Longrightarrow>
   snd (save_signals build fault run_id signals st) = st"
  by (auto simp: save_signals_def split: db_fault.splits sum.splits)

lemma merge_entities_result:
  "merge_entities fault k ents pending = Inr pending' \<Longrightarrow>
   pending' = foldl (\<lambda>m (key, row). m(key \<mapsto> row)) pending ents"
  by (induction ents arbitrary: k pending) (auto split: option.splits)

lemma save_signals_all_or_nothing:
  "(isl (fst (save_signals build fault run_id signals st))
      \<and> snd (save_signals build fault run_id signals st) = st)
   \<or> (\<exists>ents. build_entities build run_id signals = Inr ents
         \<and> fst (save_signals build fault run_id signals st) = Inr (length ents)
         \<and> snd (save_signals build fault run_id signals st)
             = foldl (\<lambda>m (key, row). m(key \<mapsto> row)) st ents)"
  by (auto simp: save_signals_def dest: merge_entities_result split: db_fault.splits sum.splits)

text \<open>
  The loop over any list of attempts: when all fail, and when one succeeds after
  failures.
\<close>

lemma retry_loop_all_fail:
  "(\<forall>a \<in> set as. attempt_fails build (db a) run_id signals (storage st)) \<Longrightarrow>
   fst (retry_loop build db n run_id signals as st) = False
   \<and> storage (snd (retry_loop build db n run_id signals as st)) = storage st
   \<and> save_calls (snd (retry_loop build db n run_id signals as st)) = save_calls st + length as"
proof (induction as arbitrary: st)
  case Nil
  then show ?case by simp
next
  case (Cons a as)
  have f: "isl (fst (save_signals build (db a) run_id signals (storage st)))"
    using Cons.prems by (simp add: attempt_fails_def)
  then obtain e where e: "save_signals build (db a) run_id signals (storage st) = (Inl e, storage st)"
    using save_signals_failure_keeps_storage [OF f]
    by (cases "save_signals build (db a) run_id signals (storage st)") (auto simp: isl_def)
  let ?st' = "st\<lparr>storage := storage st, save_calls := save_calls st + 1,
                sleeps := (if a < n then sleeps st @ [1 / 2 * of_int a] else sleeps st)\<rparr>"
  have "\<forall>b \<in> set as. attempt_fails build (db b) run_id signals (storage ?st')"
    using Cons.prems by simp
  from Cons.IH [OF this] show ?case
    by (simp add: e)
qed

lemma retry_loop_first_success:
  assumes "\<forall>a \<in> set pre. attempt_fails build (db a) run_id signals (storage st)"
    and "\<not> attempt_fails build (db k) run_id signals (storage st)"
  shows "fst (retry_loop build db n run_id signals (pre @ k # post) st) = True
   \<and> storage (snd (retry_loop build db n run_id signals (pre @ k # post) st))
       = snd (save_signals build (db k) run_id signals (storage st))
   \<and> save_calls (snd (retry_loop build db n run_id signals (pre @ k # post) st))
       = save_calls st + length pre + 1"
  using assms
proof (induction pre arbitrary: st)
  case Nil
  then obtain m s' where "save_signals build (db k) run_id signals (storage st) = (Inr m, s')"
    by (cases "save_signals build (db k) run_id signals (storage st)";
        cases "fst (save_signals build (db k) run_id signals (storage st))")
       (auto simp: attempt_fails_def)
  then show ?case by simp
next
  case (Cons a pre)
  have f: "isl (fst (save_signals build (db a) run_id signals (storage st)))"
    using Cons.prems by (simp add: attempt_fails_def)
  then obtain e where e: "save_signals build (db a) run_id signals (storage st) = (Inl e, storage st)"
    using save_signals_failure_keeps_storage [OF f]
    by (cases "save_signals build (db a) run_id signals (storage st)") (auto simp: isl_def)
  let ?st' = "st\<lparr>storage := storage st, save_calls := save_calls st + 1,
                sleeps := (if a < n then sleeps st @ [1 / 2 * of_int a] else sleeps st)\<rparr>"
  have 1: "\<forall>b \<in> set pre. attempt_fails build (db b) run_id signals (storage ?st')"
    using Cons.prems by simp
  have 2: "\<not> attempt_fails build (db k) run_id signals (storage ?st')"
    using Cons.prems by simp
  from Cons.IH [OF 1 2] show ?case
    by (simp add: e)
qed

text \<open>
  Claim C4.  With \<open>max_retries = N\<close>: if the attempts before the \<open>k\<close>-th fail and the
  \<open>k\<close>-th succeeds (\<open>1 \<le> k \<le> N\<close>), the result is success, exactly \<open>k\<close> calls of
  \<open>save_signals\<close> were made (no attempt follows a success), and the storage is the one
  that call committed; for \<open>k = N\<close> these are the \<open>N - 1\<close> failures followed by a
  success, with exactly \<open>N\<close> attempts.  If all \<open>N\<close> attempts fail, the result is
  failure after \<open>N\<close> calls and the storage is unchanged: nothing of the batch was
  written.
\<close>

theorem persist_with_retry:
  "(1 \<le> k \<and> k \<le> N
      \<and> (\<forall>a \<in> {1..<k}. attempt_fails build (db a) run_id signals (storage st))
      \<and> \<not> attempt_fails build (db k) run_id signals (storage st)
    \<longrightarrow> fst (persist_signals_with_retry build db N run_id signals st)
        \<and> save_calls (snd (persist_signals_with_retry build db N run_id signals st))
            = save_calls st + nat k
        \<and> storage (snd (persist_signals_with_retry build db N run_id signals st))
            = snd (save_signals build (db k) run_id signals (storage st)))
   \<and> ((\<forall>a \<in> {1..N}. attempt_fails build (db a) run_id signals (storage st))
    \<longrightarrow> \<not> fst (persist_signals_with_retry build db N run_id signals st)
        \<and> save_calls (snd (persist_signals_with_retry build db N run_id signals st))
            = save_calls st + nat N
        \<and> storage (snd (persist_signals_with_retry build db N run_id signals st)) = storage st)"
proof (intro conjI impI)
  assume h: "1 \<le> k \<and> k \<le> N
      \<and> (\<forall>a \<in> {1..<k}. attempt_fails build (db a) run_id signals (storage st))
      \<and> \<not> attempt_fails build (db k) run_id signals (storage st)"
  then have split: "[1..N] = [1..k - 1] @ k # [k + 1..N]"
    by (simp add: upto_split3)
  have pre: "\<forall>a \<in> set [1..k - 1]. attempt_fails build (db a) run_id signals (storage st)"
    using h by auto
  have len: "length [1..k - 1] + 1 = nat k"
    using h by (simp add: nat_diff_distrib)
  note r = retry_loop_first_success [OF pre, of k N "[k + 1..N]"]
  show "fst (persist_signals_with_retry build db N run_id signals st)"
    using r h by (simp add: persist_signals_with_retry_def split)
  show "save_calls (snd (persist_signals_with_retry build db N run_id signals st))
            = save_calls st + nat k"
    using r h len by (simp add: persist_signals_with_retry_def split)
  show "storage (snd (persist_signals_with_retry build db N run_id signals st))
            = snd (save_signals build (db k) run_id signals (storage st))"
    using r h by (simp add: persist_signals_with_retry_def split)
next
  assume h: "\<forall>a \<in> {1..N}. attempt_fails build (db a) run_id signals (storage st)"
  then have all: "\<forall>a \<in> set [1..N]. attempt_fails build (db a) run_id signals (storage st)"
    by simp
  note r = retry_loop_all_fail [OF all, of N]
  show "\<not> fst (persist_signals_with_retry build db N run_id signals st)"
    using r by (simp add: persist_signals_with_retry_def)
  show "save_calls (snd (persist_signals_with_retry build db N run_id signals st))
            = save_calls st + nat N"
    using r by (simp add: persist_signals_with_retry_def)
  show "storage (snd (persist_signals_with_retry build db N run_id signals st)) = storage st"
    using r by (simp add: persist_signals_with_retry_def)
qed

text \<open>The attempts against the two sample databases.\<close>

lemma sample_attempts:
  "attempt_fails sample_build (db_two_timeouts 1) ''run_005'' sample_signals Map.empty"
  "attempt_fails sample_build (db_two_timeouts 2) ''run_005'' sample_signals Map.empty"
  "\<not> attempt_fails sample_build (db_two_timeouts 3) ''run_005'' sample_signals Map.empty"
  "attempt_fails sample_build (db_merge_breaks a) ''run_005'' sample_signals Map.empty"
  by (simp_all add: attempt_fails_def save_signals_def sample_build_def sample_signals_def
        db_two_timeouts_def db_merge_breaks_def dict_get_def merge_raises_def)

text \<open>
  Two timeouts and then a success with \<open>max_retries = 3\<close>; three failures in the middle
  of the merges with \<open>max_retries = 3\<close>.
\<close>

theorem persist_with_retry_witness:
  "attempt_fails sample_build (db_two_timeouts 1) ''run_005'' sample_signals (storage fresh_state)
   \<and> attempt_fails sample_build (db_two_timeouts 2) ''run_005'' sample_signals
         (storage fresh_state)
   \<and> \<not> attempt_fails sample_build (db_two_timeouts 3) ''run_005'' sample_signals
           (storage fresh_state)
   \<and> fst (persist_signals_with_retry sample_build db_two_timeouts 3 ''run_005'' sample_signals
             fresh_state)
   \<and> save_calls (snd (persist_signals_with_retry sample_build db_two_timeouts 3 ''run_005''
                         sample_signals fresh_state)) = 3
   \<and> attempt_fails sample_build (db_merge_breaks 1) ''run_005'' sample_signals
         (storage fresh_state)
   \<and> attempt_fails sample_build (db_merge_breaks 2) ''run_005'' sample_signals
         (storage fresh_state)
   \<and> attempt_fails sample_build (db_merge_breaks 3) ''run_005'' sample_signals
         (storage fresh_state)
   \<and> \<not> fst (persist_signals_with_retry sample_build db_merge_breaks 3 ''run_005'' sample_signals
               fresh_state)
   \<and> save_calls (snd (persist_signals_with_retry sample_build db_merge_breaks 3 ''run_005''
                         sample_signals fresh_state)) = 3
   \<and> storage (snd (persist_signals_with_retry sample_build db_merge_breaks 3 ''run_005''
                      sample_signals fresh_state)) = Map.empty"
proof -
  have s: "storage fresh_state = Map.empty" "save_calls fresh_state = 0"
    by (simp_all add: fresh_state_def)
  have a: "\<forall>a \<in> {1..<3}. attempt_fails sample_build (db_two_timeouts a) ''run_005''
                            sample_signals (storage fresh_state)"
  proof
    fix a :: int assume "a \<in> {1..<3}"
    then have "a = 1 \<or> a = 2" by auto
    then show "attempt_fails sample_build (db_two_timeouts a) ''run_005'' sample_signals
                 (storage fresh_state)"
      using sample_attempts(1,2) by (auto simp: s)
  qed
  have b: "\<not> attempt_fails sample_build (db_two_timeouts 3) ''run_005'' sample_signals
              (storage fresh_state)"
    using sample_attempts(3) by (simp add: s)
  have c: "\<forall>a \<in> {1..3}. attempt_fails sample_build (db_merge_breaks a) ''run_005''
                           sample_signals (storage fresh_state)"
    using sample_attempts(4) by (simp add: s)
  from a b c
       persist_with_retry [of 3 3 sample_build db_two_timeouts "''run_005''" sample_signals
                             fresh_state]
       persist_with_retry [of 3 3 sample_build db_merge_breaks "''run_005''" sample_signals
                             fresh_state]
  show ?thesis using sample_attempts by (simp add: s)
qed

section \<open>Properties of the validation of a record\<close>

text \<open>
  The three accumulators of the loop are the concatenations of what each rule adds.
\<close>

lemma run_rules_accumulates:
  "run_rules rules m (es, ws, rs) =
     (es @ concat (map (\<lambda>rule. error_lines rule m) rules),
      ws @ concat (map (\<lambda>rule. warning_lines rule m) rules),
      rs @ recorded_results rules m)"
proof (induction rules arbitrary: es ws rs)
  case Nil
  then show ?case by (simp add: recorded_results_def List.map_filter_simps)
next
  case (Cons rule rules)
  show ?case
  proof (cases "check rule m")
    case (Inl e)
    then show ?thesis
      by (simp add: Cons.IH error_lines_def warning_lines_def recorded_results_def
            List.map_filter_simps)
  next
    case (Inr r)
    then show ?thesis
      by (simp add: Cons.IH error_lines_def warning_lines_def recorded_results_def
            List.map_filter_simps)
  qed
qed

lemma validate_match_fields:
  "errors (validate_match rules now m) = concat (map (\<lambda>rule. error_lines rule m) rules)"
  "warnings (validate_match rules now m) = concat (map (\<lambda>rule. warning_lines rule m) rules)"
  "rule_results (validate_match rules now m) = recorded_results rules m"
  "status (validate_match rules now m) =
     (if concat (map (\<lambda>rule. error_lines rule m) rules) \<noteq> [] then FAIL
      else if concat (map (\<lambda>rule. warning_lines rule m) rules) \<noteq> [] then WARNING else PASS)"
  by (simp_all add: validate_match_def run_rules_accumulates)

lemma recorded_results_set:
  "set (recorded_results rules m) = {r. \<exists>rule \<in> set rules. check rule m = Inr r}"
proof (induction rules)
  case Nil
  then show ?case by (simp add: recorded_results_def List.map_filter_simps)
next
  case (Cons rule rules)
  then show ?case
    by (cases "check rule m") (auto simp: recorded_results_def List.map_filter_simps)
qed

lemma error_lines_nonempty_iff:
  "(error_lines rule m \<noteq> []) =
     (raises rule m \<or> (\<exists>r. check rule m = Inr r \<and> \<not> passed r \<and> severity r = ''error''))"
  by (cases "check rule m") (auto simp: error_lines_def raises_def)

lemma warning_lines_nonempty_iff:
  "(warning_lines rule m \<noteq> []) =
     (\<exists>r. check rule m = Inr r \<and> \<not> passed r \<and> severity r \<noteq> ''error'')"
  by (cases "check rule m") (auto simp: warning_lines_def)

lemma error_lines_nonempty:
  "(concat (map (\<lambda>rule. error_lines rule m) rules) \<noteq> []) =
     ((\<exists>rule \<in> set rules. raises rule m)
      \<or> (\<exists>r \<in> set (recorded_results rules m). \<not> passed r \<and> severity r = ''error''))"
proof -
  have "(concat (map (\<lambda>rule. error_lines rule m) rules) \<noteq> []) =
          (\<exists>rule \<in> set rules. error_lines rule m \<noteq> [])"
    by simp
  also have "\<dots> = ((\<exists>rule \<in> set rules. raises rule m)
      \<or> (\<exists>r \<in> set (recorded_results rules m). \<not> passed r \<and> severity r = ''error''))"
    unfolding error_lines_nonempty_iff recorded_results_set by blast
  finally show ?thesis .
qed

lemma warning_lines_nonempty:
  "(concat (map (\<lambda>rule. warning_lines rule m) rules) \<noteq> []) =
     (\<exists>r \<in> set (recorded_results rules m). \<not> passed r \<and> severity r \<noteq> ''error'')"
proof -
  have "(concat (map (\<lambda>rule. warning_lines rule m) rules) \<noteq> []) =
          (\<exists>rule \<in> set rules. warning_lines rule m \<noteq> [])"
    by simp
  also have "\<dots> = (\<exists>r \<in> set (recorded_results rules m). \<not> passed r \<and> severity r \<noteq> ''error'')"
    unfolding warning_lines_nonempty_iff recorded_results_set by blast
  finally show ?thesis .
qed

text \<open>
  A result of a default rule that did not pass has severity \<open>error\<close> or \<open>warning\<close>.
\<close>

lemma default_rules_severity:
  assumes "rule \<in> set (setup_default_rules lib t)" and "check rule m = Inr r" and "\<not> passed r"
  shows "severity r = ''error'' \<or> severity r = ''warning''"
  using assms
  by (auto simp: setup_default_rules_def completeness_check_def validity_check_def
        consistency_check_def timeliness_check_def check_completeness_def check_validity_def
        check_consistency_def check_timeliness_def Let_def split: sum.splits)

text \<open>
  Claim C5, as the code has it.  For every record, the status under the default rules is
  \<open>fail\<close> if a rule raised or a recorded rule outcome of severity \<open>error\<close> failed;
  otherwise \<open>warning\<close> if a recorded outcome of severity \<open>warning\<close> failed; otherwise
  \<open>pass\<close>.  A rule that raised leaves no outcome among the recorded ones, so the status
  is the specification's function of the recorded outcomes only when no rule raised.
\<close>

theorem validate_match_status:
  "status (validate_match (setup_default_rules lib t) now m) =
     (if list_ex (\<lambda>rule. raises rule m) (setup_default_rules lib t) then FAIL
      else spec_status (rule_results (validate_match (setup_default_rules lib t) now m)))"
proof -
  let ?rules = "setup_default_rules lib t"
  have w: "(\<exists>r \<in> set (recorded_results ?rules m). \<not> passed r \<and> severity r \<noteq> ''error'')
           = (\<exists>r \<in> set (recorded_results ?rules m). \<not> passed r \<and> severity r = ''warning'')"
    using default_rules_severity [of _ lib t m] by (auto simp: recorded_results_set)
  show ?thesis
    unfolding validate_match_fields error_lines_nonempty warning_lines_nonempty w
    by (auto simp: spec_status_def list_ex_iff)
qed

text \<open>
  A record with the same team twice: no rule raises, and the status is \<open>fail\<close>.
\<close>

theorem validate_match_status_witness:
  "status (validate_match (setup_default_rules sample_lib 0) 0 record_same_team) = FAIL
   \<and> \<not> list_ex (\<lambda>rule. raises rule record_same_team) (setup_default_rules sample_lib 0)
   \<and> spec_status (rule_results (validate_match (setup_default_rules sample_lib 0) 0
                                  record_same_team)) = FAIL"
proof -
  have "\<not> list_ex (\<lambda>rule. raises rule record_same_team) (setup_default_rules sample_lib 0)"
    by code_simp
  moreover have "status (validate_match (setup_default_rules sample_lib 0) 0 record_same_team)
                   = FAIL"
    by code_simp
  ultimately show ?thesis
    using validate_match_status [of sample_lib 0 0 record_same_team] by simp
qed

text \<open>
  Claim C5 as stated fails at the record whose home team identifier is a number: every
  recorded rule outcome passed, so the stated derivation gives \<open>pass\<close>, and the status is
  \<open>fail\<close>, because the consistency rule raised.
\<close>

theorem status_not_function_of_rule_results:
  "status (validate_match (setup_default_rules sample_lib 0) 0 record_with_numeric_team_id) = FAIL
   \<and> map passed (rule_results (validate_match (setup_default_rules sample_lib 0) 0
                                 record_with_numeric_team_id)) = [True, True, True]
   \<and> spec_status (rule_results (validate_match (setup_default_rules sample_lib 0) 0
                                  record_with_numeric_team_id)) = PASS"
  by code_simp

text \<open>
  A rule that raises leaves the line \<open><rule>_error: <message>\<close> in the errors.
\<close>

lemma raising_rule_error_line:
  assumes "rule \<in> set rules" and "check rule m = Inl e"
  shows "name rule @ ''_error: '' @ exn_str e \<in> set (errors (validate_match rules now m))"
proof -
  have "error_lines rule m = [name rule @ ''_error: '' @ exn_str e]"
    using assms(2) by (simp add: error_lines_def)
  with assms(1) show ?thesis
    unfolding validate_match_fields by (simp, rule_tac x = rule in bexI) simp_all
qed

text \<open>
  Claim C6, as the code has it.  For every record and every rule whose check raises, the
  exception is caught and becomes the string \<open><rule>_error: <message>\<close> in the record's
  errors, and the status is \<open>fail\<close>.  No \<open>RuleResult\<close> is recorded for that rule: the
  recorded results are those of the rules that returned, all of them, so there are fewer
  results than rules.  The batch goes on: the records before and after are validated as
  they would be alone.
\<close>

theorem raising_rule_is_recorded_as_error:
  assumes "rule \<in> set rules" and "check rule m = Inl e"
  shows "name rule @ ''_error: '' @ exn_str e \<in> set (errors (validate_match rules now m))
         \<and> status (validate_match rules now m) = FAIL
         \<and> rule_results (validate_match rules now m) = recorded_results rules m
         \<and> (\<forall>other \<in> set rules. \<forall>r. check other m = Inr r \<longrightarrow>
               r \<in> set (rule_results (validate_match rules now m)))
         \<and> length (rule_results (validate_match rules now m)) < length rules
         \<and> validate_batch rules now (before @ m # rest) =
             validate_batch rules now before @ validate_match rules now m
               # validate_batch rules now rest"
proof (intro conjI)
  show "name rule @ ''_error: '' @ exn_str e \<in> set (errors (validate_match rules now m))"
    using raising_rule_error_line [OF assms] .
  have "raises rule m"
    using assms(2) by (simp add: raises_def)
  with assms(1) show "status (validate_match rules now m) = FAIL"
    unfolding validate_match_fields error_lines_nonempty by auto
  show "rule_results (validate_match rules now m) = recorded_results rules m"
    by (simp add: validate_match_fields)
  show "\<forall>other \<in> set rules. \<forall>r. check other m = Inr r \<longrightarrow>
          r \<in> set (rule_results (validate_match rules now m))"
    by (auto simp: validate_match_fields recorded_results_set)
  have "length (filter (\<lambda>r. \<not> raises r m) rules) < length rules"
    using assms(1) \<open>raises rule m\<close> by (rule_tac length_filter_less) auto
  moreover have "length (recorded_results rules m) = length (filter (\<lambda>r. \<not> raises r m) rules)"
  proof -
    have "(\<lambda>x. (case check x m of Inl e \<Rightarrow> None | Inr r \<Rightarrow> Some r) \<noteq> None)
            = (\<lambda>r. \<not> raises r m)"
      by (auto simp: raises_def fun_eq_iff split: sum.splits)
    then show ?thesis
      by (simp add: recorded_results_def List.map_filter_def)
  qed
  ultimately show "length (rule_results (validate_match rules now m)) < length rules"
    by (simp add: validate_match_fields)
  show "validate_batch rules now (before @ m # rest) =
          validate_batch rules now before @ validate_match rules now m
            # validate_batch rules now rest"
    by (simp add: validate_batch_def)
qed

text \<open>
  The consistency rule on a home team whose identifier is the number 5.
\<close>

lemma numeric_team_id_raises:
  "check (consistency_check sample_lib) record_with_numeric_team_id =
     Inl (AttributeError (quoted ''int'' @ '' object has no attribute '' @ quoted ''lower''))"
  by code_simp

theorem raising_rule_is_recorded_as_error_witness:
  "consistency_check sample_lib \<in> set (setup_default_rules sample_lib 0)
   \<and> check (consistency_check sample_lib) record_with_numeric_team_id =
       Inl (AttributeError (quoted ''int'' @ '' object has no attribute '' @ quoted ''lower''))
   \<and> name (consistency_check sample_lib) @ ''_error: ''
         @ exn_str (AttributeError (quoted ''int'' @ '' object has no attribute ''
                                     @ quoted ''lower''))
       \<in> set (errors (validate_match (setup_default_rules sample_lib 0) 0
                        record_with_numeric_team_id))
   \<and> status (validate_match (setup_default_rules sample_lib 0) 0
               record_with_numeric_team_id) = FAIL
   \<and> length (rule_results (validate_match (setup_default_rules sample_lib 0) 0
                             record_with_numeric_team_id))
       < length (setup_default_rules sample_lib 0)"
proof -
  have 1: "consistency_check sample_lib \<in> set (setup_default_rules sample_lib 0)"
    by (simp add: setup_default_rules_def)
  from raising_rule_is_recorded_as_error [OF 1 numeric_team_id_raises, of 0 "[]" "[]"]
       1 numeric_team_id_raises
  show ?thesis by blast
qed

text \<open>
  Claim C6 as stated fails at that record: the recorded outcomes are those of
  completeness, validity and timeliness; none is named \<open>consistency_error\<close>, which is
  only the prefix of a string in the errors.
\<close>

theorem no_rule_result_for_raising_rule:
  "map rule_name (rule_results (validate_match (setup_default_rules sample_lib 0) 0
                                  record_with_numeric_team_id))
     = [''completeness'', ''validity'', ''timeliness'']
   \<and> errors (validate_match (setup_default_rules sample_lib 0) 0 record_with_numeric_team_id)
     = [''consistency_error: '' @ quoted ''int'' @ '' object has no attribute ''
          @ quoted ''lower'']"
  by code_simp

text \<open>
  Claim C7, at a record whose \<open>scheduled_at\<close> is \<open>"not-a-date"\<close>.  The validity rule
  passes, with severity \<open>info\<close> and no invalid field: the \<open>try\<close> block only calls
  \<open>str.replace\<close> and never parses the string.
\<close>

theorem validity_accepts_unparseable_date:
  "check_validity [(''scheduled_at'', PStr ''not-a-date'')] =
     Inr \<lparr>rule_name = ''validity'', passed = True,
          details = [(''invalid_fields'', [])], severity = ''info''\<rparr>"
  by code_simp

text \<open>
  For every record the validity result is decided by the two score fields alone; a
  score that is present, not \<open>None\<close>, and negative or not a number makes the rule fail
  with severity \<open>error\<close>.
\<close>

lemma validity_never_reads_the_date:
  "check_validity m =
     Inr \<lparr>rule_name = ''validity'',
          passed = (\<not> score_invalid m ''home_score'' \<and> \<not> score_invalid m ''away_score''),
          details = [(''invalid_fields'',
                      map (\<lambda>f. f @ '': negative or invalid value'')
                          (filter (score_invalid m) [''home_score'', ''away_score'']))],
          severity = (if score_invalid m ''home_score'' \<or> score_invalid m ''away_score''
                      then ''error'' else ''info'')\<rparr>"
  by (auto simp: check_validity_def validity_try_scheduled_def Let_def split: pyval.splits)

lemma validity_rejects_bad_score:
  assumes "f = ''home_score'' \<or> f = ''away_score''"
    and "map_of m f = Some v" and "v \<noteq> PNone" and "\<not> is_int_or_float v \<or> lt_zero v"
  shows "\<exists>r. check_validity m = Inr r \<and> \<not> passed r \<and> severity r = ''error''"
proof -
  have "score_invalid m f"
    using assms by (auto simp: score_invalid_def has_key_def dict_get_def)
  with assms(1) show ?thesis
    by (auto simp: validity_never_reads_the_date)
qed

section \<open>Properties of the summary and of the fallback trigger\<close>

text \<open>
  Claim C8.  For the empty batch the summary is \<open>total = 0\<close>, \<open>passed = 0\<close>,
  \<open>failed = 0\<close>, \<open>pass_rate = 0.0\<close>, \<open>critical_failure = False\<close>: the function returns
  it and raises no \<open>ZeroDivisionError\<close>.  On the empty list of results the fallback
  trigger returns \<open>None\<close> and leaves the pipeline and the network as they were: no
  request is made.
\<close>

theorem empty_batch_summary_and_no_fallback:
  "get_quality_summary lib [] =
     Inr [(''total_matches'', PInt 0), (''passed'', PInt 0), (''failed'', PInt 0),
          (''pass_rate'', PFloat (Fin 0)), (''critical_failure'', PBool False)]
   \<and> trigger_fallback_if_needed lib t1 t2 [] p net = Inr (None, p, net)"
  by (simp add: get_quality_summary_def trigger_fallback_if_needed_def)

text \<open>
  The summary of a batch that is not empty, and the two ways the trigger goes.
\<close>

lemma summary_of_batch:
  assumes "results \<noteq> []"
  shows "\<exists>s. get_quality_summary lib results = Inr s
           \<and> map_of s ''critical_failure''
               = Some (PBool (pass_rate_of results < 1 - CRITICAL_FAILURE_THRESHOLD))
           \<and> formattable (dict_get s ''pass_rate'' (PFloat (Fin 1)))"
  using assms
  by (simp add: get_quality_summary_def truediv_def pass_rate_of_def Let_def dict_get_def)

lemma fetch_from_fallback_effect:
  "\<exists>fb p'. fetch_from_fallback p net = (fb, p', net\<lparr>requests := requests net + 1\<rparr>)
      \<and> was_triggered p' = was_triggered p \<and> cascading_failure p' = cascading_failure p
      \<and> fallback_events p' = fallback_events p \<and> fp_trace_id p' = fp_trace_id p"
  by (cases "respond net (requests net)")
     (simp_all add: fetch_from_fallback_def fp_failed_def Let_def)

lemma trigger_below_threshold:
  assumes "results \<noteq> []" and "fail_rate_of results < CRITICAL_FAILURE_THRESHOLD"
  shows "trigger_fallback_if_needed lib t1 t2 results p net
           = Inr (None, p\<lparr>was_triggered := False\<rparr>, net)"
  using assms
  by (simp add: trigger_fallback_if_needed_def truediv_def fail_rate_of_def Let_def)

lemma trigger_at_or_above_threshold:
  assumes "results \<noteq> []" and "\<not> fail_rate_of results < CRITICAL_FAILURE_THRESHOLD"
  shows "\<exists>fb p'. trigger_fallback_if_needed lib t1 t2 results p net
                  = Inr (fb, p', net\<lparr>requests := requests net + 1\<rparr>)
           \<and> was_triggered p'
           \<and> (fb = None \<longrightarrow> cascading_failure p')
           \<and> (fb \<noteq> None \<longrightarrow> cascading_failure p' = cascading_failure p)
           \<and> length (fallback_events p') = length (fallback_events p) + 2"
proof -
  let ?fc = "int (length (filter (\<lambda>r. status r = FAIL) results))"
  let ?tc = "int (length results)"
  let ?p2 = "p\<lparr>was_triggered := True, triggered_at := Some t1,
               fallback_events := fallback_events p @
                 [triggered_event lib t1 (fp_trace_id p) ?tc ?fc (fail_rate_of results)]\<rparr>"
  obtain fb p3 where f: "fetch_from_fallback ?p2 net = (fb, p3, net\<lparr>requests := requests net + 1\<rparr>)"
    and k: "was_triggered p3 = was_triggered ?p2" "cascading_failure p3 = cascading_failure ?p2"
           "fallback_events p3 = fallback_events ?p2"
    using fetch_from_fallback_effect [of ?p2 net] by blast
  have fr: "rat_of_nat (length (filter (\<lambda>r. status r = FAIL) results)) / rat_of_nat (length results)
              = fail_rate_of results"
    by (simp add: fail_rate_of_def)
  show ?thesis
    using assms f k
    by (cases fb) (simp_all add: trigger_fallback_if_needed_def truediv_def fr Let_def)
qed

text \<open>
  A result cannot be both \<open>PASS\<close> and \<open>FAIL\<close>.
\<close>

lemma rates_add_up:
  "pass_rate_of results + fail_rate_of results \<le> 1"
proof (cases "results = []")
  case True
  then show ?thesis by (simp add: pass_rate_of_def fail_rate_of_def)
next
  case False
  have "length (filter (\<lambda>r. status r = PASS) results)
          + length (filter (\<lambda>r. status r = FAIL) results) \<le> length results"
  proof (induction results)
    case Nil
    then show ?case by simp
  next
    case (Cons r rs)
    then show ?case by (cases "status r") simp_all
  qed
  then have "rat_of_nat (length (filter (\<lambda>r. status r = PASS) results))
          + rat_of_nat (length (filter (\<lambda>r. status r = FAIL) results))
          \<le> rat_of_nat (length results)"
    by (metis of_nat_add of_nat_le_iff)
  with False show ?thesis
    by (simp add: pass_rate_of_def fail_rate_of_def add_divide_distrib [symmetric]
          divide_le_eq)
qed

text \<open>
  Claim C2, as the code has it.  The trigger does not read \<open>critical_failure\<close>: it
  computes the rate of \<open>FAIL\<close> results of the batch and compares it with the same
  threshold.  For every batch whose fail rate is not exactly the threshold: one request
  is made when the fail rate is above the threshold and none otherwise; a request is made
  only when \<open>critical_failure\<close> is true; and when the pass rate is at least
  \<open>1 - threshold\<close>, \<open>critical_failure\<close> is false and no request is made.
\<close>

theorem fallback_trigger_and_critical_failure:
  assumes "fail_rate_of results \<noteq> CRITICAL_FAILURE_THRESHOLD"
  shows "\<exists>s fb p' net'.
           get_quality_summary lib results = Inr s
         \<and> trigger_fallback_if_needed lib t1 t2 results p net = Inr (fb, p', net')
         \<and> (requests net' = requests net \<or> requests net' = requests net + 1)
         \<and> (requests net' = requests net + 1)
             = (results \<noteq> [] \<and> CRITICAL_FAILURE_THRESHOLD < fail_rate_of results)
         \<and> (requests net' = requests net + 1 \<longrightarrow>
               map_of s ''critical_failure'' = Some (PBool True))
         \<and> (results \<noteq> [] \<and> 1 - CRITICAL_FAILURE_THRESHOLD \<le> pass_rate_of results \<longrightarrow>
               map_of s ''critical_failure'' = Some (PBool False)
               \<and> requests net' = requests net \<and> fb = None)"
proof (cases "results = []")
  case True
  then show ?thesis
    by (simp add: get_quality_summary_def trigger_fallback_if_needed_def)
next
  case False
  obtain s where s: "get_quality_summary lib results = Inr s"
    and cf: "map_of s ''critical_failure''
               = Some (PBool (pass_rate_of results < 1 - CRITICAL_FAILURE_THRESHOLD))"
    using summary_of_batch [OF False] by blast
  show ?thesis
  proof (cases "fail_rate_of results < CRITICAL_FAILURE_THRESHOLD")
    case True
    from trigger_below_threshold [OF False True, of lib t1 t2 p net] s cf True False
    show ?thesis by auto
  next
    case above: False
    with assms have gt: "CRITICAL_FAILURE_THRESHOLD < fail_rate_of results"
      by simp
    with rates_add_up [of results]
    have crit: "pass_rate_of results < 1 - CRITICAL_FAILURE_THRESHOLD"
      by simp
    obtain fb p' where
      "trigger_fallback_if_needed lib t1 t2 results p net
         = Inr (fb, p', net\<lparr>requests := requests net + 1\<rparr>)"
      using trigger_at_or_above_threshold [OF False above] by blast
    with s cf gt crit False show ?thesis by auto
  qed
qed

text \<open>
  Two failures out of three fire the trigger; three passes do not.
\<close>

lemma sample_rates:
  "fail_rate_of [result_with FAIL, result_with FAIL, result_with PASS] = 2 / 3"
  "fail_rate_of [result_with PASS, result_with PASS, result_with PASS] = 0"
  "pass_rate_of [result_with PASS, result_with PASS, result_with PASS] = 1"
  "fail_rate_of [result_with WARNING] = 0"
  "pass_rate_of [result_with WARNING] = 0"
  by (simp_all add: fail_rate_of_def pass_rate_of_def result_with_def)

theorem fallback_trigger_and_critical_failure_witness:
  "fail_rate_of [result_with FAIL, result_with FAIL, result_with PASS]
     \<noteq> CRITICAL_FAILURE_THRESHOLD
   \<and> (\<exists>s fb p' net'.
         get_quality_summary sample_lib [result_with FAIL, result_with FAIL, result_with PASS]
           = Inr s
       \<and> trigger_fallback_if_needed sample_lib 0 1
           [result_with FAIL, result_with FAIL, result_with PASS] sample_pipeline network_down
           = Inr (fb, p', net')
       \<and> requests net' = requests network_down + 1
       \<and> map_of s ''critical_failure'' = Some (PBool True))
   \<and> fail_rate_of [result_with PASS, result_with PASS, result_with PASS]
       \<noteq> CRITICAL_FAILURE_THRESHOLD
   \<and> 1 - CRITICAL_FAILURE_THRESHOLD
       \<le> pass_rate_of [result_with PASS, result_with PASS, result_with PASS]
   \<and> (\<exists>s fb p' net'.
         get_quality_summary sample_lib [result_with PASS, result_with PASS, result_with PASS]
           = Inr s
       \<and> trigger_fallback_if_needed sample_lib 0 1
           [result_with PASS, result_with PASS, result_with PASS] sample_pipeline network_down
           = Inr (fb, p', net')
       \<and> requests net' = requests network_down \<and> fb = None
       \<and> map_of s ''critical_failure'' = Some (PBool False))"
proof -
  have a: "fail_rate_of [result_with FAIL, result_with FAIL, result_with PASS]
             \<noteq> CRITICAL_FAILURE_THRESHOLD"
    by (simp add: sample_rates CRITICAL_FAILURE_THRESHOLD_def)
  have b: "fail_rate_of [result_with PASS, result_with PASS, result_with PASS]
             \<noteq> CRITICAL_FAILURE_THRESHOLD"
    by (simp add: sample_rates CRITICAL_FAILURE_THRESHOLD_def)
  have c: "1 - CRITICAL_FAILURE_THRESHOLD
             \<le> pass_rate_of [result_with PASS, result_with PASS, result_with PASS]"
    by (simp add: sample_rates CRITICAL_FAILURE_THRESHOLD_def)
  have d: "CRITICAL_FAILURE_THRESHOLD
             < fail_rate_of [result_with FAIL, result_with FAIL, result_with PASS]"
    by (simp add: sample_rates CRITICAL_FAILURE_THRESHOLD_def)
  from fallback_trigger_and_critical_failure [OF a, of sample_lib 0 1 sample_pipeline network_down]
       d
  have 1: "\<exists>s fb p' net'.
         get_quality_summary sample_lib [result_with FAIL, result_with FAIL, result_with PASS]
           = Inr s
       \<and> trigger_fallback_if_needed sample_lib 0 1
           [result_with FAIL, result_with FAIL, result_with PASS] sample_pipeline network_down
           = Inr (fb, p', net')
       \<and> requests net' = requests network_down + 1
       \<and> map_of s ''critical_failure'' = Some (PBool True)"
    by (elim exE conjE, intro exI conjI) (assumption | simp)+
  from fallback_trigger_and_critical_failure [OF b, of sample_lib 0 1 sample_pipeline network_down]
       c
  have 2: "\<exists>s fb p' net'.
         get_quality_summary sample_lib [result_with PASS, result_with PASS, result_with PASS]
           = Inr s
       \<and> trigger_fallback_if_needed sample_lib 0 1
           [result_with PASS, result_with PASS, result_with PASS] sample_pipeline network_down
           = Inr (fb, p', net')
       \<and> requests net' = requests network_down \<and> fb = None
       \<and> map_of s ''critical_failure'' = Some (PBool False)"
    by (elim exE conjE, intro exI conjI) (assumption | simp)+
  from a b c 1 2 show ?thesis by blast
qed

text \<open>
  Claim C2 as stated fails at a batch of one record with status \<open>WARNING\<close>: the summary
  has \<open>critical_failure = True\<close> (the pass rate is 0), and the trigger, whose fail rate
  is 0, returns \<open>None\<close> without a request.  The trigger is a rate of its own, not the
  summary's boolean.
\<close>

theorem critical_failure_without_fallback:
  "get_quality_summary sample_lib [result_with WARNING] =
     Inr [(''total_matches'', PInt 1), (''passed'', PInt 0), (''failed'', PInt 1),
          (''pass_rate'', PFloat (Fin 0)), (''critical_failure'', PBool True),
          (''threshold'', PFloat (Fin (1 / 5)))]
   \<and> trigger_fallback_if_needed sample_lib 0 1 [result_with WARNING] sample_pipeline network_down
       = Inr (None, sample_pipeline\<lparr>was_triggered := False\<rparr>, network_down)"
  by (simp add: get_quality_summary_def trigger_fallback_if_needed_def truediv_def
        result_with_def CRITICAL_FAILURE_THRESHOLD_def sample_lib_def Let_def)

text \<open>
  At a fail rate of exactly the threshold (one \<open>FAIL\<close> in five) the summary has
  \<open>critical_failure = False\<close> and the trigger makes a request: the trigger stays idle
  only below the threshold, the summary is critical only above it.
\<close>

lemma fallback_at_exact_threshold:
  "get_quality_summary sample_lib
     [result_with FAIL, result_with PASS, result_with PASS, result_with PASS, result_with PASS] =
     Inr [(''total_matches'', PInt 5), (''passed'', PInt 4), (''failed'', PInt 1),
          (''pass_rate'', PFloat (Fin (4 / 5))), (''critical_failure'', PBool False),
          (''threshold'', PFloat (Fin (1 / 5)))]
   \<and> map_sum id (requests \<circ> snd \<circ> snd)
        (trigger_fallback_if_needed sample_lib 0 1
           [result_with FAIL, result_with PASS, result_with PASS, result_with PASS,
            result_with PASS] sample_pipeline network_down)
       = Inr 1"
  by (simp add: get_quality_summary_def trigger_fallback_if_needed_def truediv_def
        result_with_def CRITICAL_FAILURE_THRESHOLD_def sample_lib_def Let_def
        fetch_from_fallback_def network_down_def fp_failed_def)

text \<open>
  Claim C3, as the code has it.  For every run whose summary has
  \<open>critical_failure = True\<close> and whose fallback returned \<open>None\<close>, the guard's decision
  is \<open>degraded-no-bet\<close> with betting refused.  The report's \<open>cascading_failure\<close> is true
  when the request was made (and failed); when the trigger did not fire it is what it was
  before the call, which is false on a new pipeline.
\<close>

theorem no_bet_and_cascading_failure:
  assumes "get_quality_summary lib results = Inr s"
    and "map_of s ''critical_failure'' = Some (PBool True)"
    and "trigger_fallback_if_needed lib t1 t2 results p net = Inr (None, p', net')"
  shows "\<exists>d g'. evaluate_run_status lib t3 t4 s None g = Inr (d, g')
           \<and> mode d = DEGRADED_NO_BET \<and> \<not> allow_betting d
           \<and> (requests net' = requests net + 1 \<or> requests net' = requests net)
           \<and> (requests net' = requests net + 1 \<longrightarrow>
                 map_of (get_fallback_report lib p') ''cascading_failure'' = Some (PBool True))
           \<and> (requests net' = requests net \<longrightarrow>
                 map_of (get_fallback_report lib p') ''cascading_failure''
                   = Some (PBool (cascading_failure p)))"
proof -
  have ne: "results \<noteq> []"
    using assms(1,2) by (auto simp: get_quality_summary_def)
  from summary_of_batch [OF ne, of lib] assms(1)
  have fm: "formattable (dict_get s ''pass_rate'' (PFloat (Fin 1)))"
    by auto
  have cf: "py_truthy (dict_get s ''critical_failure'' (PBool False))"
    using assms(2) by (simp add: dict_get_def)
  from evaluate_run_status_cases [OF fm, of lib t3 t4 None g] cf
  obtain d g' where d: "evaluate_run_status lib t3 t4 s None g = Inr (d, g')"
      "mode d = DEGRADED_NO_BET" "\<not> allow_betting d"
    by auto
  have rep: "\<And>q. map_of (get_fallback_report lib q) ''cascading_failure''
                 = Some (PBool (cascading_failure q))"
    by (simp add: get_fallback_report_def)
  show ?thesis
  proof (cases "fail_rate_of results < CRITICAL_FAILURE_THRESHOLD")
    case True
    from trigger_below_threshold [OF ne True, of lib t1 t2 p net] assms(3)
    have "p' = p\<lparr>was_triggered := False\<rparr>" "net' = net"
      by simp_all
    with d rep show ?thesis by simp
  next
    case False
    from trigger_at_or_above_threshold [OF ne False, of lib t1 t2 p net] assms(3)
    have "cascading_failure p'" "net' = net\<lparr>requests := requests net + 1\<rparr>"
      by auto
    with d rep show ?thesis by simp
  qed
qed

text \<open>
  Five failures and a network that times out.
\<close>

lemma five_failures_run:
  "get_quality_summary sample_lib five_failures = Inr summary_of_five_failures"
  "map_of summary_of_five_failures ''critical_failure'' = Some (PBool True)"
  "\<exists>p'. trigger_fallback_if_needed sample_lib 0 1 five_failures sample_pipeline network_down
          = Inr (None, p', network_down\<lparr>requests := 1\<rparr>)"
  by (simp_all add: get_quality_summary_def trigger_fallback_if_needed_def truediv_def
        result_with_def CRITICAL_FAILURE_THRESHOLD_def sample_lib_def Let_def five_failures_def
        summary_of_five_failures_def fetch_from_fallback_def network_down_def fp_failed_def
        numeral_eq_Suc)

theorem no_bet_and_cascading_failure_witness:
  "get_quality_summary sample_lib five_failures = Inr summary_of_five_failures
   \<and> map_of summary_of_five_failures ''critical_failure'' = Some (PBool True)
   \<and> (\<exists>p' net'.
         trigger_fallback_if_needed sample_lib 0 1 five_failures sample_pipeline network_down
           = Inr (None, p', net')
       \<and> requests net' = requests network_down + 1
       \<and> map_of (get_fallback_report sample_lib p') ''cascading_failure'' = Some (PBool True)
       \<and> (\<exists>d g'. evaluate_run_status sample_lib 2 3 summary_of_five_failures None
                     (new_guard (Some ''test-trace-123'') sample_uuid) = Inr (d, g')
                 \<and> mode d = DEGRADED_NO_BET \<and> \<not> allow_betting d))"
proof -
  obtain p' where t: "trigger_fallback_if_needed sample_lib 0 1 five_failures sample_pipeline
                        network_down = Inr (None, p', network_down\<lparr>requests := 1\<rparr>)"
    using five_failures_run(3) by blast
  have r: "requests (network_down\<lparr>requests := 1\<rparr>) = requests network_down + 1"
    by (simp add: network_down_def)
  from no_bet_and_cascading_failure [OF five_failures_run(1,2) t, of 2 3 "new_guard (Some ''test-trace-123'') sample_uuid"] r
  have "map_of (get_fallback_report sample_lib p') ''cascading_failure'' = Some (PBool True)
       \<and> (\<exists>d g'. evaluate_run_status sample_lib 2 3 summary_of_five_failures None
                     (new_guard (Some ''test-trace-123'') sample_uuid) = Inr (d, g')
                 \<and> mode d = DEGRADED_NO_BET \<and> \<not> allow_betting d)"
    by auto
  with t r five_failures_run(1,2) show ?thesis by blast
qed

text \<open>
  Claim C3 as stated fails at a batch of one record with status \<open>WARNING\<close> on a new
  pipeline: \<open>critical_failure\<close> is true, the fallback returns \<open>None\<close> because it did
  not fire, the guard refuses betting, and the report's \<open>cascading_failure\<close> is false.
\<close>

theorem no_bet_without_cascading_failure:
  "get_quality_summary sample_lib [result_with WARNING] = Inr summary_of_one_warning
   \<and> map_of summary_of_one_warning ''critical_failure'' = Some (PBool True)
   \<and> trigger_fallback_if_needed sample_lib 0 1 [result_with WARNING] sample_pipeline network_down
       = Inr (None, sample_pipeline\<lparr>was_triggered := False\<rparr>, network_down)
   \<and> map_of (get_fallback_report sample_lib (sample_pipeline\<lparr>was_triggered := False\<rparr>))
        ''cascading_failure'' = Some (PBool False)
   \<and> map_sum id (mode \<circ> fst)
        (evaluate_run_status sample_lib 2 3 summary_of_one_warning None
           (new_guard (Some ''test-trace-123'') sample_uuid)) = Inr DEGRADED_NO_BET
   \<and> map_sum id (allow_betting \<circ> fst)
        (evaluate_run_status sample_lib 2 3 summary_of_one_warning None
           (new_guard (Some ''test-trace-123'') sample_uuid)) = Inr False"
  by (simp add: get_quality_summary_def trigger_fallback_if_needed_def truediv_def
        result_with_def CRITICAL_FAILURE_THRESHOLD_def sample_lib_def Let_def
        summary_of_one_warning_def get_fallback_report_def sample_pipeline_def new_pipeline_def
        evaluate_run_status_def dict_get_def)

end
